theory Spec2Isabelle
  imports Main "HOL-Library.Word"
begin

section \<open>A VLESS-over-WebSocket relay: the two session implementations\<close>

text \<open>
  The repository holds two variants of \<^verbatim>\<open>processWebSocket\<close>:
  \<^item> \<^verbatim>\<open>src/apps/deno-vless/src/main.ts\<close> drives the session from the raw socket callbacks
    \<^verbatim>\<open>onmessage\<close>, \<^verbatim>\<open>onerror\<close>, \<^verbatim>\<open>onclose\<close> (the callback variant);
  \<^item> \<^verbatim>\<open>src/unnamed/part_000\<close> pipes a readable stream of inbound chunks into a
    \<^verbatim>\<open>WritableStream\<close> and gates the TCP-to-WebSocket pipe on a promise (the stream variant).

  Every callback is embedded as a function from the session variables to the updated
  variables, the list of platform calls it makes (in program order) and a flag telling
  whether an exception left the callback. JavaScript runs a callback without interleaving
  up to an \<^verbatim>\<open>await\<close>. The functions \<open>run\<close> and \<open>pipe_run\<close> run every callback to its end
  in one step: an awaited platform call is given its outcome by the record \<open>io\<close>. They
  describe the schedules in which no event is dispatched while a callback waits. The
  \<^verbatim>\<open>WritableStream\<close> of the stream variant calls \<^verbatim>\<open>write\<close> for the next chunk only when the
  promise of the previous call has settled, so for its inbound chunks these are all the
  schedules. The \<^verbatim>\<open>onmessage\<close> callback of the callback variant is dispatched whenever a
  frame arrives, also while an earlier call waits for \<^verbatim>\<open>Deno.connect\<close>: the function
  \<open>interleaved_run\<close> splits that callback at its \<^verbatim>\<open>await\<close>s. Of the platform calls,
  \<^verbatim>\<open>Deno.connect\<close> and \<^verbatim>\<open>remoteConnection.write\<close> may fail in the model; closing, sending
  on an open socket and logging are taken to succeed.
\<close>

subsection \<open>Platform calls and data\<close>

type_synonym byte = "8 word"

datatype readyState = CONNECTING | OPEN | CLOSING | CLOSED

datatype action =
    ConsoleLog string          \<comment> \<open>\<^verbatim>\<open>console.log\<close> of the rendered line\<close>
  | ConsoleError string        \<comment> \<open>\<^verbatim>\<open>console.error\<close> of the rendered line\<close>
  | WsClose                    \<comment> \<open>\<^verbatim>\<open>socket.close()\<close>\<close>
  | WsSend "byte list"         \<comment> \<open>\<^verbatim>\<open>webSocket.send(bytes)\<close>\<close>
  | Connect string nat         \<comment> \<open>\<^verbatim>\<open>Deno.connect({port, hostname})\<close>\<close>
  | TcpWrite "byte list"       \<comment> \<open>\<^verbatim>\<open>remoteConnection.write(bytes)\<close>\<close>
  | TcpClose                   \<comment> \<open>\<^verbatim>\<open>remoteConnection.close()\<close>\<close>
  | Delay nat                  \<comment> \<open>\<^verbatim>\<open>await delay(ms)\<close>\<close>
  | ControllerError string     \<comment> \<open>\<^verbatim>\<open>controller.error(reason)\<close>\<close>

text \<open>
  The result object of \<^verbatim>\<open>processVlessHeader\<close>. Every field but \<^verbatim>\<open>hasError\<close> may be
  \<^verbatim>\<open>undefined\<close>, which is \<open>None\<close> here.
\<close>

record vless_header =
  hasError :: bool
  message :: "string option"
  portRemote :: "nat option"
  addressRemote :: "string option"
  rawDataIndex :: "nat option"
  vlessVersion :: "byte list option"
  isUDP :: "bool option"

text \<open>The result object of \<^verbatim>\<open>base64ToArrayBuffer\<close>: \<^verbatim>\<open>{ earlyData, error }\<close>.\<close>

record base64_result =
  earlyData :: "byte list option"
  error :: bool

text \<open>
  \<^verbatim>\<open>processVlessHeader\<close> and \<^verbatim>\<open>base64ToArrayBuffer\<close> are imported from the package
  \<^verbatim>\<open>vless-js\<close>, which is not among the sources: they are parameters of the model.
\<close>

record env =
  processVlessHeader :: "byte list \<Rightarrow> string \<Rightarrow> vless_header"
  base64ToArrayBuffer :: "string \<Rightarrow> base64_result"

text \<open>
  What the platform answers during one callback: whether \<^verbatim>\<open>Deno.connect\<close> resolves,
  whether \<^verbatim>\<open>remoteConnection.write\<close> resolves, and the rendering of \<^verbatim>\<open>Math.random()\<close>.
\<close>

record io =
  connect_ok :: bool
  write_ok :: bool
  random :: string

text \<open>
  What a callback leaves behind: the session variables, the platform calls it made, and
  whether an exception left the callback (\<open>threw\<close>).
\<close>

record 's outcome =
  st :: 's
  acts :: "action list"
  threw :: bool

subsection \<open>JavaScript truthiness and template literals\<close>

definition falsy_num :: "nat option \<Rightarrow> bool" where
  "falsy_num n = (case n of None \<Rightarrow> True | Some k \<Rightarrow> k = 0)"

definition falsy_str :: "string option \<Rightarrow> bool" where
  "falsy_str a = (case a of None \<Rightarrow> True | Some t \<Rightarrow> t = [])"

definition truthy :: "bool option \<Rightarrow> bool" where
  "truthy b = (case b of None \<Rightarrow> False | Some v \<Rightarrow> v)"

definition digit_char :: "nat \<Rightarrow> char" where
  "digit_char d = char_of (48 + d)"

function show_nat :: "nat \<Rightarrow> string" where
  "show_nat n = (if n < 10 then [digit_char n] else show_nat (n div 10) @ [digit_char (n mod 10)])"
  by pat_completeness auto
termination
  by (relation "measure id") auto

declare show_nat.simps [simp del]

definition template_num :: "nat option \<Rightarrow> string" where
  "template_num n = (case n of None \<Rightarrow> ''undefined'' | Some k \<Rightarrow> show_nat k)"

definition template_str :: "string option \<Rightarrow> string" where
  "template_str a = (case a of None \<Rightarrow> ''undefined'' | Some t \<Rightarrow> t)"

text \<open>\<^verbatim>\<open>addressRemote || ''\<close>\<close>

definition or_empty :: "string option \<Rightarrow> string" where
  "or_empty a = (case a of None \<Rightarrow> [] | Some t \<Rightarrow> t)"

text \<open>
  \<^verbatim>\<open>vlessVersion[0]\<close> inside \<^verbatim>\<open>new Uint8Array([vlessVersion[0], 0])\<close>: reading past the end
  of a typed array gives \<^verbatim>\<open>undefined\<close>, which the constructor stores as 0.
\<close>

definition first_byte :: "byte list \<Rightarrow> byte" where
  "first_byte v = (case v of [] \<Rightarrow> 0 | b # _ \<Rightarrow> b)"

subsection \<open>Session variables shared by both variants\<close>

text \<open>
  \<open>userID\<close>, \<open>address\<close>, \<open>portWithRandomLog\<close> and \<open>remoteConnection\<close> are the
  variables of \<^verbatim>\<open>processWebSocket\<close>; \<open>wsReadyState\<close> is \<^verbatim>\<open>webSocket.readyState\<close>. A
  connection is named by the host and port it was dialled with; \<open>None\<close> is \<^verbatim>\<open>null\<close>.
\<close>

record session =
  userID :: string
  address :: string
  portWithRandomLog :: string
  remoteConnection :: "(string \<times> nat) option"
  wsReadyState :: readyState

text \<open>
  The closure \<^verbatim>\<open>log\<close> reads \<^verbatim>\<open>address\<close> and \<^verbatim>\<open>portWithRandomLog\<close> when it is called.
\<close>

definition log_prefix :: "'a session_scheme \<Rightarrow> string" where
  "log_prefix s = ''['' @ address s @ '':'' @ portWithRandomLog s @ ''] ''"

definition log :: "'a session_scheme \<Rightarrow> string \<Rightarrow> action" where
  "log s info = ConsoleLog (log_prefix s @ info)"

text \<open>
  Modelled from the spec: \<^verbatim>\<open>closeWebSocket\<close> is imported from \<^verbatim>\<open>vless-js\<close> and is not
  among the sources. The specification asks that closing a socket that is already closed
  is a no-op and not an error: the socket is closed when it is open and left alone
  otherwise.
\<close>

definition closeWebSocket :: "'a session_scheme \<Rightarrow> 'a session_scheme \<times> action list" where
  "closeWebSocket s =
     (if wsReadyState s = OPEN then (s\<lparr>wsReadyState := CLOSING\<rparr>, [WsClose]) else (s, []))"

text \<open>\<^verbatim>\<open>remoteConnection?.close()\<close>: nothing when the variable is \<^verbatim>\<open>null\<close>.\<close>

definition close_remote :: "'a session_scheme \<Rightarrow> action list" where
  "close_remote s = (case remoteConnection s of None \<Rightarrow> [] | Some _ \<Rightarrow> [TcpClose])"

text \<open>
  The guard \<^verbatim>\<open>hasError || !portRemote || !addressRemote || !rawDataIndex || !vlessVersion\<close>.
  A typed array is an object and so always truthy, also when it is empty.
\<close>

definition header_rejected :: "vless_header \<Rightarrow> bool" where
  "header_rejected h =
     (hasError h \<or> falsy_num (portRemote h) \<or> falsy_str (addressRemote h)
      \<or> falsy_num (rawDataIndex h) \<or> vlessVersion h = None)"

text \<open>The two assignments that follow the call of \<^verbatim>\<open>processVlessHeader\<close>.\<close>

definition set_log_context :: "io \<Rightarrow> vless_header \<Rightarrow> 'a session_scheme \<Rightarrow> 'a session_scheme" where
  "set_log_context i h s =
     s\<lparr>address := or_empty (addressRemote h),
       portWithRandomLog := template_num (portRemote h) @ ''--'' @ random i\<rparr>"

text \<open>\<^verbatim>\<open>vlessBuffer.slice(rawDataIndex)\<close>: the bytes from the index to the end.\<close>

definition rawClientData :: "vless_header \<Rightarrow> byte list \<Rightarrow> byte list" where
  "rawClientData h vlessBuffer =
     drop (case rawDataIndex h of None \<Rightarrow> 0 | Some k \<Rightarrow> k) vlessBuffer"

section \<open>The callback variant: \<^verbatim>\<open>src/apps/deno-vless/src/main.ts\<close>\<close>

text \<open>
  \<open>readableStreamCancel\<close> is the variable of that name. \<open>remotePiped\<close> is not a variable
  of the program: it records that \<^verbatim>\<open>remoteConnection.readable.pipeTo\<close> has been called, so
  that the callbacks of that pipe exist.
\<close>

record main_session = session +
  readableStreamCancel :: bool
  remotePiped :: bool

text \<open>The \<^verbatim>\<open>catch\<close> of the inner \<^verbatim>\<open>try\<close> around the dial (lines 192 to 195).\<close>

definition failed_to_connect :: "main_session \<Rightarrow> action list \<Rightarrow> main_session outcome" where
  "failed_to_connect s done =
     (let (s', c) = closeWebSocket s
      in \<lparr>st = s', acts = done @ [log s ''Failed to connect to remote''] @ c, threw = False\<rparr>)"

text \<open>
  Lines 155 to 195, reached when the guard and the UDP test have let the header through
  (so \<open>portRemote\<close> is present; the default 0 is never used). Line 161 builds the
  constant \<^verbatim>\<open>vlessResponseHeader\<close> from \<^verbatim>\<open>vlessVersion[0]\<close>; nothing reads it afterwards,
  so it leaves no trace here. The pipe from the TCP connection is set up last.
\<close>

definition dial :: "io \<Rightarrow> vless_header \<Rightarrow> main_session \<Rightarrow> byte list \<Rightarrow> main_session outcome" where
  "dial i h s vlessBuffer =
     (let port = (case portRemote h of None \<Rightarrow> 0 | Some p \<Rightarrow> p);
          pre = [log s (''connecting to '' @ address s @ '':'' @ template_num (portRemote h)),
                 Connect (address s) port]
      in if \<not> connect_ok i then failed_to_connect s pre
         else
           let s2 = s\<lparr>remoteConnection := Some (address s, port)\<rparr>;
               raw = rawClientData h vlessBuffer
           in if raw \<noteq> [] \<and> \<not> write_ok i then failed_to_connect s2 (pre @ [TcpWrite raw])
              else \<lparr>st = s2\<lparr>remotePiped := True\<rparr>,
                    acts = pre @ (if raw \<noteq> [] then [TcpWrite raw] else []),
                    threw = False\<rparr>)"

text \<open>\<^verbatim>\<open>webSocket.onmessage\<close>, lines 117 to 196.\<close>

definition webSocket_onmessage ::
  "env \<Rightarrow> io \<Rightarrow> main_session \<Rightarrow> byte list \<Rightarrow> main_session outcome" where
  "webSocket_onmessage e i s vlessBuffer =
     (if readableStreamCancel s then \<lparr>st = s, acts = [], threw = False\<rparr>
      else if remoteConnection s \<noteq> None then
        \<lparr>st = s, acts = [TcpWrite vlessBuffer], threw = \<not> write_ok i\<rparr>
      else
        let h = processVlessHeader e vlessBuffer (userID s);
            s1 = set_log_context i h s
        in if header_rejected h then
             (let (s2, c) = closeWebSocket s1
              in \<lparr>st = s2,
                  acts = log s1 (''VLESS header processing error: '' @ template_str (message h)) # c,
                  threw = False\<rparr>)
           else if truthy (isUDP h) then
             (let (s2, c) = closeWebSocket s1
              in \<lparr>st = s2, acts = log s1 ''UDP command is not supported'' # c, threw = False\<rparr>)
           else dial i h s1 vlessBuffer)"

text \<open>\<^verbatim>\<open>webSocket.onerror\<close>, lines 198 to 202.\<close>

definition webSocket_onerror :: "main_session \<Rightarrow> main_session outcome" where
  "webSocket_onerror s =
     \<lparr>st = s\<lparr>readableStreamCancel := True\<rparr>,
      acts = log s ''socket has error'' # close_remote s,
      threw = False\<rparr>"

text \<open>
  \<^verbatim>\<open>webSocket.onclose\<close>, lines 204 to 214. The log comes before the test of the flag. The
  \<^verbatim>\<open>try\<close> around the body has nothing to catch here, since \<^verbatim>\<open>close\<close> does not throw in
  the model.
\<close>

definition webSocket_onclose :: "main_session \<Rightarrow> main_session outcome" where
  "webSocket_onclose s =
     \<lparr>st = s,
      acts = log s ''webSocket is close'' # (if readableStreamCancel s then [] else close_remote s),
      threw = False\<rparr>"

text \<open>The callbacks of the \<^verbatim>\<open>WritableStream\<close> fed by the TCP connection, lines 168 to 190.\<close>

definition remote_write :: "main_session \<Rightarrow> byte list \<Rightarrow> main_session outcome" where
  "remote_write s chunk =
     (if wsReadyState s = OPEN then \<lparr>st = s, acts = [WsSend chunk], threw = False\<rparr>
      else \<lparr>st = s,
            acts = ControllerError ''can't accept data from remote when client webSocket is close''
                   # close_remote s,
            threw = False\<rparr>)"

definition remote_close :: "main_session \<Rightarrow> main_session outcome" where
  "remote_close s =
     (let (s', c) = closeWebSocket s
      in \<lparr>st = s', acts = log s ''remoteConnection readable stream is close'' # c, threw = False\<rparr>)"

definition remote_abort :: "main_session \<Rightarrow> main_session outcome" where
  "remote_abort s =
     (let (s', c) = closeWebSocket s
      in \<lparr>st = s', acts = log s ''remoteConnection readable stream is abort'' # c, threw = False\<rparr>)"

definition remote_pipeTo_catch :: "main_session \<Rightarrow> main_session outcome" where
  "remote_pipeTo_catch s =
     (let (s', c) = closeWebSocket s
      in \<lparr>st = s',
          acts = log s ''remoteConnection readable stream pipeto has exception'' # c,
          threw = False\<rparr>)"

text \<open>The \<^verbatim>\<open>catch\<close> of the outer \<^verbatim>\<open>try\<close>, lines 234 to 241.\<close>

definition processWebSocket_catch :: "main_session \<Rightarrow> action list \<Rightarrow> main_session outcome" where
  "processWebSocket_catch s done =
     (let (s', c) = closeWebSocket s
      in \<lparr>st = s',
          acts = done @ [ConsoleError (log_prefix s @ ''processWebSocket has exception '')] @ c
                 @ close_remote s,
          threw = False\<rparr>)"

text \<open>
  The body of \<^verbatim>\<open>processWebSocket\<close>, lines 106 to 242: it declares the variables, installs
  the three socket callbacks and decodes the early-data header. \<open>ws\<close> is the state of the
  socket it is handed.
\<close>

definition initial_session :: "string \<Rightarrow> readyState \<Rightarrow> main_session" where
  "initial_session uid ws =
     \<lparr>userID = uid, address = [], portWithRandomLog = [], remoteConnection = None,
      wsReadyState = ws, readableStreamCancel = False, remotePiped = False\<rparr>"

definition processWebSocket ::
  "env \<Rightarrow> io \<Rightarrow> string \<Rightarrow> readyState \<Rightarrow> string \<Rightarrow> main_session outcome" where
  "processWebSocket e i uid ws earlyDataHeader =
     (let s = initial_session uid ws;
          r = base64ToArrayBuffer e earlyDataHeader
      in if error r then
           (let (s', c) = closeWebSocket s
            in \<lparr>st = s', acts = log s ''earlyDataHeader has invaild base64'' # c, threw = False\<rparr>)
         else
           (case earlyData r of
              None \<Rightarrow> \<lparr>st = s, acts = [], threw = False\<rparr>
            | Some d \<Rightarrow>
                (case remoteConnection s of
                   None \<Rightarrow> \<lparr>st = s, acts = [], threw = False\<rparr>
                 | Some _ \<Rightarrow>
                     if write_ok i then \<lparr>st = s, acts = [TcpWrite d], threw = False\<rparr>
                     else processWebSocket_catch s [TcpWrite d])))"

subsection \<open>Events of a session\<close>

text \<open>
  One event is one callback invocation, run to its end before the next event: a frame
  that dials has its connection (or the failure) before anything else is dispatched. A
  message event carries the platform's answers for that callback. When the socket's
  \<^verbatim>\<open>close\<close> event fires its \<^verbatim>\<open>readyState\<close> is \<^verbatim>\<open>CLOSED\<close>. The callbacks of the TCP pipe
  run only once the pipe exists. An exception that leaves a socket callback is caught by
  nothing in the program: the run stops there with \<open>threw\<close> set.
\<close>

datatype event =
    WsMessage "byte list" io
  | WsError
  | WsClosed
  | RemoteChunk "byte list"
  | RemoteEOF
  | RemoteAbort
  | RemotePipeRejected

definition idle :: "'s \<Rightarrow> 's outcome" where
  "idle s = \<lparr>st = s, acts = [], threw = False\<rparr>"

fun step :: "env \<Rightarrow> main_session \<Rightarrow> event \<Rightarrow> main_session outcome" where
  "step e s (WsMessage b i) = webSocket_onmessage e i s b"
| "step e s WsError = webSocket_onerror s"
| "step e s WsClosed = webSocket_onclose (s\<lparr>wsReadyState := CLOSED\<rparr>)"
| "step e s (RemoteChunk c) = (if remotePiped s then remote_write s c else idle s)"
| "step e s RemoteEOF = (if remotePiped s then remote_close s else idle s)"
| "step e s RemoteAbort = (if remotePiped s then remote_abort s else idle s)"
| "step e s RemotePipeRejected = (if remotePiped s then remote_pipeTo_catch s else idle s)"

fun run :: "env \<Rightarrow> main_session \<Rightarrow> event list \<Rightarrow> main_session outcome" where
  "run e s [] = idle s"
| "run e s (ev # evs) =
     (let r = step e s ev
      in if threw r then r
         else let r' = run e (st r) evs
              in \<lparr>st = st r', acts = acts r @ acts r', threw = threw r'\<rparr>)"

text \<open>A whole session: the body of \<^verbatim>\<open>processWebSocket\<close>, then the events.\<close>

definition session_run ::
  "env \<Rightarrow> io \<Rightarrow> string \<Rightarrow> readyState \<Rightarrow> string \<Rightarrow> event list \<Rightarrow> main_session outcome" where
  "session_run e i uid ws earlyDataHeader evs =
     (let r = processWebSocket e i uid ws earlyDataHeader;
          r' = run e (st r) evs
      in \<lparr>st = st r', acts = acts r @ acts r', threw = threw r'\<rparr>)"

subsection \<open>Frames that arrive during a dial\<close>

text \<open>
  \<^verbatim>\<open>onmessage\<close> is an \<^verbatim>\<open>async\<close> function. A call that dials returns to the event loop at
  \<^verbatim>\<open>await Deno.connect\<close> (line 157) and, when there are trailing bytes, once more at
  \<^verbatim>\<open>await remoteConnection.write\<close> (line 164); \<^verbatim>\<open>remoteConnection\<close> is assigned only when
  the first \<^verbatim>\<open>await\<close> resumes. A call that waits is a \<open>suspended\<close> entry: what it still
  needs of its local variables (the header result and the frame) and the host and port
  it dialled. The entries are numbered in the order in which the dials were started.
\<close>

datatype suspended =
    AwaitConnect vless_header "byte list" string nat
  | AwaitTrailingWrite
  | Finished

text \<open>
  \<^verbatim>\<open>onmessage\<close> up to its first \<^verbatim>\<open>await\<close>, lines 117 to 160: as \<open>webSocket_onmessage\<close>, but
  the branch that dials stops after the call of \<^verbatim>\<open>Deno.connect\<close>. The write of a relayed
  frame (line 124) is followed by nothing but the return, so its outcome is taken at once.
\<close>

definition onmessage_begin ::
  "env \<Rightarrow> io \<Rightarrow> main_session \<Rightarrow> byte list \<Rightarrow> main_session outcome \<times> suspended list" where
  "onmessage_begin e i s vlessBuffer =
     (if readableStreamCancel s then (\<lparr>st = s, acts = [], threw = False\<rparr>, [])
      else if remoteConnection s \<noteq> None then
        (\<lparr>st = s, acts = [TcpWrite vlessBuffer], threw = \<not> write_ok i\<rparr>, [])
      else
        let h = processVlessHeader e vlessBuffer (userID s);
            s1 = set_log_context i h s
        in if header_rejected h then
             (let (s2, c) = closeWebSocket s1
              in (\<lparr>st = s2,
                   acts = log s1 (''VLESS header processing error: '' @ template_str (message h)) # c,
                   threw = False\<rparr>, []))
           else if truthy (isUDP h) then
             (let (s2, c) = closeWebSocket s1
              in (\<lparr>st = s2, acts = log s1 ''UDP command is not supported'' # c, threw = False\<rparr>,
                  []))
           else
             (let port = (case portRemote h of None \<Rightarrow> 0 | Some p \<Rightarrow> p)
              in (\<lparr>st = s1,
                   acts = [log s1 (''connecting to '' @ address s1 @ '':''
                                   @ template_num (portRemote h)),
                           Connect (address s1) port],
                   threw = False\<rparr>,
                  [AwaitConnect h vlessBuffer (address s1) port])))"

text \<open>
  The call resumes behind \<^verbatim>\<open>await Deno.connect\<close>, lines 157 to 165: the connection it
  dialled is assigned to \<^verbatim>\<open>remoteConnection\<close>, whatever that variable holds by then, and
  the trailing bytes are written to it. A rejected dial goes to the \<^verbatim>\<open>catch\<close>, which logs
  with the log context of that moment.
\<close>

definition connect_settled ::
  "main_session \<Rightarrow> vless_header \<Rightarrow> byte list \<Rightarrow> string \<Rightarrow> nat \<Rightarrow> bool
   \<Rightarrow> main_session outcome \<times> suspended" where
  "connect_settled s h vlessBuffer host port ok =
     (if \<not> ok then (failed_to_connect s [], Finished)
      else
        let s2 = s\<lparr>remoteConnection := Some (host, port)\<rparr>;
            raw = rawClientData h vlessBuffer
        in if raw \<noteq> [] then
             (\<lparr>st = s2, acts = [TcpWrite raw], threw = False\<rparr>, AwaitTrailingWrite)
           else (\<lparr>st = s2\<lparr>remotePiped := True\<rparr>, acts = [], threw = False\<rparr>, Finished))"

text \<open>
  The call resumes behind the write of the trailing bytes, lines 164 to 195: the pipe from
  the TCP connection is set up, or the \<^verbatim>\<open>catch\<close> runs.
\<close>

definition trailing_write_settled :: "main_session \<Rightarrow> bool \<Rightarrow> main_session outcome" where
  "trailing_write_settled s ok =
     (if ok then \<lparr>st = s\<lparr>remotePiped := True\<rparr>, acts = [], threw = False\<rparr>
      else failed_to_connect s [])"

text \<open>
  What the event loop dispatches: an event of the session (a frame starts a new call of
  \<^verbatim>\<open>onmessage\<close>; the other events run their callbacks as in \<open>step\<close>), or the settling of
  the promise that the suspended call number \<open>k\<close> waits for, with its outcome. Of the
  \<open>io\<close> that comes with a frame only \<open>write_ok\<close> (for a relayed frame) and \<open>random\<close> are
  read here: the outcome of a dial comes with \<open>ConnectSettled\<close>.
\<close>

datatype dispatch =
    Arrives event
  | ConnectSettled nat bool
  | TrailingWriteSettled nat bool

fun interleaved_step ::
  "env \<Rightarrow> main_session \<times> suspended list \<Rightarrow> dispatch
   \<Rightarrow> (main_session \<times> suspended list) outcome" where
  "interleaved_step e (s, ts) (Arrives (WsMessage b i)) =
     (let (r, new) = onmessage_begin e i s b
      in \<lparr>st = (st r, ts @ new), acts = acts r, threw = threw r\<rparr>)"
| "interleaved_step e (s, ts) (Arrives ev) =
     (let r = step e s ev in \<lparr>st = (st r, ts), acts = acts r, threw = threw r\<rparr>)"
| "interleaved_step e (s, ts) (ConnectSettled k ok) =
     (if k < length ts then
        (case ts ! k of
           AwaitConnect h b host port \<Rightarrow>
             (let (r, next) = connect_settled s h b host port ok
              in \<lparr>st = (st r, ts[k := next]), acts = acts r, threw = threw r\<rparr>)
         | _ \<Rightarrow> idle (s, ts))
      else idle (s, ts))"
| "interleaved_step e (s, ts) (TrailingWriteSettled k ok) =
     (if k < length ts then
        (case ts ! k of
           AwaitTrailingWrite \<Rightarrow>
             (let r = trailing_write_settled s ok
              in \<lparr>st = (st r, ts[k := Finished]), acts = acts r, threw = threw r\<rparr>)
         | _ \<Rightarrow> idle (s, ts))
      else idle (s, ts))"

fun interleaved_run ::
  "env \<Rightarrow> main_session \<times> suspended list \<Rightarrow> dispatch list
   \<Rightarrow> (main_session \<times> suspended list) outcome" where
  "interleaved_run e c [] = idle c"
| "interleaved_run e c (d # ds) =
     (let r = interleaved_step e c d
      in if threw r then r
         else let r' = interleaved_run e (st r) ds
              in \<lparr>st = st r', acts = acts r @ acts r', threw = threw r'\<rparr>)"

section \<open>The stream variant: \<^verbatim>\<open>src/unnamed/part_000\<close>\<close>

text \<open>
  \<open>vlessResponseHeader\<close> and \<open>remoteChunkCount\<close> are the variables of those names.
  \<open>readyResolved\<close> is not a variable of the program: it records that
  \<^verbatim>\<open>remoteConnectionReadyPromise\<close> has been resolved, after which the pipe from the TCP
  connection to the socket exists.
\<close>

record pipe_session = session +
  vlessResponseHeader :: "byte list option"
  remoteChunkCount :: nat
  readyResolved :: bool

text \<open>The \<^verbatim>\<open>catch\<close> of the inner \<^verbatim>\<open>try\<close> around the dial (lines 152 to 155).\<close>

definition pipe_failed_to_connect :: "pipe_session \<Rightarrow> action list \<Rightarrow> pipe_session outcome" where
  "pipe_failed_to_connect s done =
     (let (s', c) = closeWebSocket s
      in \<lparr>st = s', acts = done @ [log s ''Failed to connect to remote''] @ c, threw = False\<rparr>)"

text \<open>
  Lines 140 to 155. The response header is stored before the trailing bytes are written;
  \<^verbatim>\<open>resolve\<close> is the last statement of the \<^verbatim>\<open>try\<close> block.
\<close>

definition pipe_dial :: "io \<Rightarrow> vless_header \<Rightarrow> pipe_session \<Rightarrow> byte list \<Rightarrow> pipe_session outcome" where
  "pipe_dial i h s vlessBuffer =
     (let port = (case portRemote h of None \<Rightarrow> 0 | Some p \<Rightarrow> p);
          pre = [log s (''connecting to '' @ address s @ '':'' @ template_num (portRemote h)),
                 Connect (address s) port]
      in if \<not> connect_ok i then pipe_failed_to_connect s pre
         else
           let s2 = s\<lparr>remoteConnection := Some (address s, port),
                      vlessResponseHeader :=
                        Some [first_byte (case vlessVersion h of None \<Rightarrow> [] | Some v \<Rightarrow> v), 0]\<rparr>;
               raw = rawClientData h vlessBuffer
           in if raw \<noteq> [] \<and> \<not> write_ok i then pipe_failed_to_connect s2 (pre @ [TcpWrite raw])
              else \<lparr>st = s2\<lparr>readyResolved := True\<rparr>,
                    acts = pre @ (if raw \<noteq> [] then [TcpWrite raw] else []),
                    threw = False\<rparr>)"

text \<open>
  The \<^verbatim>\<open>write\<close> callback of the \<^verbatim>\<open>WritableStream\<close> that receives the inbound chunks,
  lines 107 to 156.
\<close>

definition ws_write ::
  "env \<Rightarrow> io \<Rightarrow> pipe_session \<Rightarrow> byte list \<Rightarrow> pipe_session outcome" where
  "ws_write e i s vlessBuffer =
     (if remoteConnection s \<noteq> None then
        \<lparr>st = s, acts = [TcpWrite vlessBuffer], threw = \<not> write_ok i\<rparr>
      else
        let h = processVlessHeader e vlessBuffer (userID s);
            s1 = set_log_context i h s
        in if header_rejected h then
             (let (s2, c) = closeWebSocket s1
              in \<lparr>st = s2,
                  acts = log s1 (''VLESS header processing error: '' @ template_str (message h)) # c,
                  threw = False\<rparr>)
           else if truthy (isUDP h) then
             (let (s2, c) = closeWebSocket s1
              in \<lparr>st = s2, acts = log s1 ''UDP command is not supported'' # c, threw = False\<rparr>)
           else pipe_dial i h s1 vlessBuffer)"

text \<open>Its \<^verbatim>\<open>close\<close> and \<^verbatim>\<open>abort\<close> callbacks and the \<^verbatim>\<open>.catch\<close> of the pipe, lines 157 to 171.\<close>

definition ws_close :: "pipe_session \<Rightarrow> pipe_session outcome" where
  "ws_close s =
     \<lparr>st = s, acts = log s ''readableWebSocketStream is close'' # close_remote s, threw = False\<rparr>"

definition ws_abort :: "pipe_session \<Rightarrow> pipe_session outcome" where
  "ws_abort s =
     \<lparr>st = s, acts = log s ''readableWebSocketStream is abort'' # close_remote s, threw = False\<rparr>"

definition ws_pipeTo_catch :: "pipe_session \<Rightarrow> pipe_session outcome" where
  "ws_pipeTo_catch s =
     (let (s', c) = closeWebSocket s
      in \<lparr>st = s',
          acts = log s ''readableWebSocketStream pipeto has exception'' # c @ close_remote s,
          threw = False\<rparr>)"

text \<open>
  Lines 175 to 190: what \<^verbatim>\<open>processWebSocket\<close> does once the promise is resolved. The
  counter is declared with 0 and the \<^verbatim>\<open>start\<close> callback of the second \<^verbatim>\<open>WritableStream\<close>
  runs when the stream is constructed. The promise is resolved only after
  \<open>vlessResponseHeader\<close> has been stored, so the empty default is never sent.
\<close>

definition remote_ready :: "pipe_session \<Rightarrow> pipe_session outcome" where
  "remote_ready s =
     (if remoteConnection s = None then
        \<lparr>st = s, acts = [log s ''Failed to establish remote connection. Aborting.''], threw = False\<rparr>
      else
        \<lparr>st = s\<lparr>remoteChunkCount := 0\<rparr>,
         acts = (if wsReadyState s = OPEN
                 then [WsSend (case vlessResponseHeader s of None \<Rightarrow> [] | Some v \<Rightarrow> v)] else []),
         threw = False\<rparr>)"

text \<open>
  The \<^verbatim>\<open>write\<close> callback of the second \<^verbatim>\<open>WritableStream\<close>, lines 191 to 215, with the
  throttle. The counter is a JavaScript number; it is exact below \<open>2 ^ 53\<close>, far beyond
  what a session counts, and is a natural number here.
\<close>

definition pipe_remote_write :: "pipe_session \<Rightarrow> byte list \<Rightarrow> pipe_session outcome" where
  "pipe_remote_write s chunk =
     (if wsReadyState s \<noteq> OPEN then
        \<lparr>st = s,
         acts = ControllerError ''can't accept data from remote when client webSocket is close''
                # close_remote s,
         threw = False\<rparr>
      else
        let s1 = s\<lparr>remoteChunkCount := remoteChunkCount s + 1\<rparr>
        in if remoteChunkCount s1 < 20 then \<lparr>st = s1, acts = [WsSend chunk], threw = False\<rparr>
           else if remoteChunkCount s1 < 120 then
             \<lparr>st = s1, acts = [Delay 10, WsSend chunk], threw = False\<rparr>
           else if remoteChunkCount s1 < 500 then
             \<lparr>st = s1, acts = [Delay 20, WsSend chunk], threw = False\<rparr>
           else \<lparr>st = s1, acts = [Delay 50, WsSend chunk], threw = False\<rparr>)"

definition pipe_remote_close :: "pipe_session \<Rightarrow> pipe_session outcome" where
  "pipe_remote_close s =
     (let (s', c) = closeWebSocket s
      in \<lparr>st = s', acts = log s ''remoteConnection.readable is close'' # c, threw = False\<rparr>)"

definition pipe_remote_abort :: "pipe_session \<Rightarrow> pipe_session outcome" where
  "pipe_remote_abort s =
     (let (s', c) = closeWebSocket s
      in \<lparr>st = s', acts = log s ''remoteConnection.readable abort'' # c, threw = False\<rparr>)"

text \<open>The \<^verbatim>\<open>catch\<close> of the outer \<^verbatim>\<open>try\<close>, lines 226 to 233.\<close>

definition pipe_processWebSocket_catch :: "pipe_session \<Rightarrow> pipe_session outcome" where
  "pipe_processWebSocket_catch s =
     (let (s', c) = closeWebSocket s
      in \<lparr>st = s',
          acts = ConsoleError (log_prefix s @ ''processWebSocket has exception '') # c
                 @ close_remote s,
          threw = False\<rparr>)"

definition pipe_initial_session :: "string \<Rightarrow> readyState \<Rightarrow> pipe_session" where
  "pipe_initial_session uid ws =
     \<lparr>userID = uid, address = [], portWithRandomLog = [], remoteConnection = None,
      wsReadyState = ws, vlessResponseHeader = None, remoteChunkCount = 0,
      readyResolved = False\<rparr>"

subsection \<open>Events of a session of the stream variant\<close>

text \<open>
  The inbound chunks come from \<^verbatim>\<open>makeReadableWebSocketStream\<close>, which is not among the
  sources: the chunks it delivers, its end and its failure are events. A \<^verbatim>\<open>write\<close>
  callback that throws errors its stream, which rejects the promise of \<^verbatim>\<open>pipeTo\<close>, so
  the \<^verbatim>\<open>.catch\<close> callback runs next. A \<^verbatim>\<open>write\<close> that resolves the promise lets
  \<^verbatim>\<open>processWebSocket\<close> continue behind its \<^verbatim>\<open>await\<close>. The second pipe is awaited inside
  the outer \<^verbatim>\<open>try\<close>: its rejection runs the outer \<^verbatim>\<open>catch\<close>.
\<close>

datatype pipe_event =
    WsChunk "byte list" io
  | WsStreamClosed
  | WsStreamAborted
  | WsPipeRejected
  | TcpChunk "byte list"
  | TcpEOF
  | TcpAborted
  | TcpPipeRejected

definition after :: "'s outcome \<Rightarrow> ('s \<Rightarrow> 's outcome) \<Rightarrow> 's outcome" where
  "after r k = (let r' = k (st r) in \<lparr>st = st r', acts = acts r @ acts r', threw = threw r'\<rparr>)"

definition ws_chunk_step :: "env \<Rightarrow> io \<Rightarrow> pipe_session \<Rightarrow> byte list \<Rightarrow> pipe_session outcome" where
  "ws_chunk_step e i s b =
     (let r = ws_write e i s b
      in if threw r then after r ws_pipeTo_catch
         else if readyResolved (st r) \<and> \<not> readyResolved s then after r remote_ready
         else r)"

fun pipe_step :: "env \<Rightarrow> pipe_session \<Rightarrow> pipe_event \<Rightarrow> pipe_session outcome" where
  "pipe_step e s (WsChunk b i) = ws_chunk_step e i s b"
| "pipe_step e s WsStreamClosed = ws_close s"
| "pipe_step e s WsStreamAborted = ws_abort s"
| "pipe_step e s WsPipeRejected = ws_pipeTo_catch s"
| "pipe_step e s (TcpChunk c) = (if readyResolved s then pipe_remote_write s c else idle s)"
| "pipe_step e s TcpEOF = (if readyResolved s then pipe_remote_close s else idle s)"
| "pipe_step e s TcpAborted = (if readyResolved s then pipe_remote_abort s else idle s)"
| "pipe_step e s TcpPipeRejected =
     (if readyResolved s then pipe_processWebSocket_catch s else idle s)"

fun pipe_run :: "env \<Rightarrow> pipe_session \<Rightarrow> pipe_event list \<Rightarrow> pipe_session outcome" where
  "pipe_run e s [] = idle s"
| "pipe_run e s (ev # evs) =
     (let r = pipe_step e s ev
      in if threw r then r
         else let r' = pipe_run e (st r) evs
              in \<lparr>st = st r', acts = acts r @ acts r', threw = threw r'\<rparr>)"

section \<open>The upgrade handler of \<^verbatim>\<open>src/apps/deno-vless/src/main.ts\<close>\<close>

text \<open>
  \<^verbatim>\<open>getVlessUUID\<close> (lines 18 to 27) searches the URL with the regular expression
  \<^verbatim>\<open>/([a-f0-9]{8}-[a-f0-9]{4}-[a-f0-9]{4}-[a-f0-9]{4}-[a-f0-9]{12})/i\<close>. The pattern has one
  length, 36, and no alternative, so the match is the leftmost window of 36 characters of
  that shape; group 1 is the whole match. With the flag \<^verbatim>\<open>i\<close> a letter of either case
  matches.
\<close>

definition is_hex :: "char \<Rightarrow> bool" where
  "is_hex c = (c \<in> set ''0123456789abcdefABCDEF'')"

definition uuid_shaped :: "string \<Rightarrow> bool" where
  "uuid_shaped t =
     (length t = 36 \<and>
      list_all (\<lambda>k. if k \<in> {8, 13, 18, 23} then t ! k = CHR ''-'' else is_hex (t ! k)) [0..<36])"

fun find_uuid :: "string \<Rightarrow> string option" where
  "find_uuid [] = None"
| "find_uuid (c # cs) =
     (if uuid_shaped (take 36 (c # cs)) then Some (take 36 (c # cs)) else find_uuid cs)"

definition getVlessUUID :: "string \<Rightarrow> string" where
  "getVlessUUID url =
     (case find_uuid url of Some m \<Rightarrow> m | None \<Rightarrow> ''6c131438-da48-459f-a236-9a45374e9a45'')"

text \<open>
  The arguments of the two calls of \<^verbatim>\<open>processWebSocket\<close> that the handler of the route
  \<^verbatim>\<open>/\<close> sets up (lines 49 to 83): the one in \<^verbatim>\<open>socket.onopen\<close> and the one in the
  \<^verbatim>\<open>onOpen\<close> callback handed to Hono. \<open>configured\<close> is the module variable \<^verbatim>\<open>userID\<close>
  (the environment's identifier or the fallback), \<open>proto\<close> the request header
  \<^verbatim>\<open>sec-websocket-protocol\<close>.
\<close>

record session_args =
  arg_userID :: string
  arg_earlyDataHeader :: string

record upgrade_calls =
  socket_onopen :: session_args
  hono_onOpen :: session_args

definition upgradeWebSocket_handler :: "string \<Rightarrow> string \<Rightarrow> string option \<Rightarrow> upgrade_calls" where
  "upgradeWebSocket_handler configured url proto =
     (let vlessUUID = getVlessUUID url;
          earlyDataHeader = or_empty proto
      in \<lparr>socket_onopen = \<lparr>arg_userID = vlessUUID, arg_earlyDataHeader = earlyDataHeader\<rparr>,
          hono_onOpen = \<lparr>arg_userID = configured, arg_earlyDataHeader = earlyDataHeader\<rparr>\<rparr>)"

text \<open>The session that \<^verbatim>\<open>socket.onopen\<close> starts; the socket is open when that event fires.\<close>

definition socket_onopen_session ::
  "env \<Rightarrow> io \<Rightarrow> string \<Rightarrow> string \<Rightarrow> string option \<Rightarrow> main_session outcome" where
  "socket_onopen_session e i configured url proto =
     (let a = socket_onopen (upgradeWebSocket_handler configured url proto)
      in processWebSocket e i (arg_userID a) OPEN (arg_earlyDataHeader a))"

text \<open>
  The words of the claim about the identifier, "the first UUID-shaped substring": \<open>u\<close> is
  the window of 36 characters at offset \<open>k\<close> of the URL, it has the shape, and no window
  at a smaller offset has it.
\<close>

definition first_uuid_at :: "string \<Rightarrow> nat \<Rightarrow> string \<Rightarrow> bool" where
  "first_uuid_at url k u =
     (u = take 36 (drop k url) \<and> uuid_shaped u
      \<and> list_all (\<lambda>j. \<not> uuid_shaped (take 36 (drop j url))) [0..<k])"

section \<open>Observations on a list of platform calls\<close>

fun dialled :: "action \<Rightarrow> (string \<times> nat) list" where
  "dialled (Connect host port) = [(host, port)]"
| "dialled _ = []"

fun written :: "action \<Rightarrow> byte list list" where
  "written (TcpWrite b) = [b]"
| "written _ = []"

fun sent :: "action \<Rightarrow> byte list list" where
  "sent (WsSend b) = [b]"
| "sent _ = []"

fun delay_ms :: "action \<Rightarrow> nat" where
  "delay_ms (Delay d) = d"
| "delay_ms _ = 0"

fun socket_call :: "action \<Rightarrow> bool" where
  "socket_call (ConsoleLog _) = False"
| "socket_call (ConsoleError _) = False"
| "socket_call _ = True"

text \<open>The dials, the TCP writes and the WebSocket frames of a list of calls, in order.\<close>

definition connects :: "action list \<Rightarrow> (string \<times> nat) list" where
  "connects as = concat (map dialled as)"

definition tcp_writes :: "action list \<Rightarrow> byte list list" where
  "tcp_writes as = concat (map written as)"

definition ws_sends :: "action list \<Rightarrow> byte list list" where
  "ws_sends as = concat (map sent as)"

text \<open>The time a callback waits in \<^verbatim>\<open>delay\<close>, in milliseconds.\<close>

definition awaited_delay :: "'s outcome \<Rightarrow> nat" where
  "awaited_delay r = sum_list (map delay_ms (acts r))"

text \<open>
  The table of the specification (its section 4.4), written from its words, to compare
  with the \<^verbatim>\<open>if\<close> chain of \<open>pipe_remote_write\<close>.
\<close>

definition throttle_table :: "nat \<Rightarrow> nat" where
  "throttle_table n =
     (if n < 20 then 0 else if 20 \<le> n \<and> n \<le> 119 then 10
      else if 120 \<le> n \<and> n \<le> 499 then 20 else 50)"

text \<open>
  The WebSocket interface dispatches a \<^verbatim>\<open>message\<close> event only while \<^verbatim>\<open>readyState\<close> is
  \<^verbatim>\<open>OPEN\<close>. The predicates below say that a list of events respects this along the run.
  The program does not check it: it is a condition on the platform.
\<close>

fun is_frame :: "event \<Rightarrow> bool" where
  "is_frame (WsMessage _ _) = True"
| "is_frame _ = False"

text \<open>The events whose callbacks test \<open>readableStreamCancel\<close>: inbound frames and \<^verbatim>\<open>close\<close>.\<close>

fun tests_flag :: "event \<Rightarrow> bool" where
  "tests_flag (WsMessage _ _) = True"
| "tests_flag WsClosed = True"
| "tests_flag _ = False"

fun frames_while_open :: "env \<Rightarrow> main_session \<Rightarrow> event list \<Rightarrow> bool" where
  "frames_while_open e s [] = True"
| "frames_while_open e s (ev # evs) =
     ((if is_frame ev then wsReadyState s = OPEN else True)
      \<and> frames_while_open e (st (step e s ev)) evs)"

fun is_chunk :: "pipe_event \<Rightarrow> bool" where
  "is_chunk (WsChunk _ _) = True"
| "is_chunk _ = False"

fun chunks_while_open :: "env \<Rightarrow> pipe_session \<Rightarrow> pipe_event list \<Rightarrow> bool" where
  "chunks_while_open e s [] = True"
| "chunks_while_open e s (ev # evs) =
     ((if is_chunk ev then wsReadyState s = OPEN else True)
      \<and> chunks_while_open e (st (pipe_step e s ev)) evs)"

section \<open>A concrete session\<close>

text \<open>
  The scenario of the specification: a client that holds the fallback identifier asks for
  \<^verbatim>\<open>example.com:80\<close>. The frame is the VLESS header (version 0, the 16 bytes of the
  identifier, no options, the command, port 80, address type 2, a domain of 11 bytes)
  followed by a payload; the header ends at byte 34. \<open>example_env\<close> answers for
  \<^verbatim>\<open>processVlessHeader\<close> on these frames as the header layout of the specification says
  and reports an error on any other input; it decodes the early-data strings \<^verbatim>\<open>AQID\<close>
  (the bytes 1, 2, 3) and the empty string, and reports an error on any other.
\<close>

definition fallbackUUID :: string where
  "fallbackUUID = ''6c131438-da48-459f-a236-9a45374e9a45''"

definition vless_frame :: "byte \<Rightarrow> byte list \<Rightarrow> byte list" where
  "vless_frame command payload =
     [0, 108, 19, 20, 56, 218, 72, 69, 159, 162, 54, 154, 69, 55, 78, 154, 69, 0, command,
      0, 80, 2, 11, 101, 120, 97, 109, 112, 108, 101, 46, 99, 111, 109] @ payload"

definition example_header :: "bool \<Rightarrow> vless_header" where
  "example_header udp =
     \<lparr>hasError = False, message = None, portRemote = Some 80,
      addressRemote = Some ''example.com'', rawDataIndex = Some 34, vlessVersion = Some [0],
      isUDP = Some udp\<rparr>"

definition error_header :: vless_header where
  "error_header =
     \<lparr>hasError = True, message = Some ''invalid user'', portRemote = None,
      addressRemote = None, rawDataIndex = None, vlessVersion = None, isUDP = None\<rparr>"

definition example_env :: env where
  "example_env =
     \<lparr>processVlessHeader =
        (\<lambda>b u. if u = fallbackUUID \<and> take 34 b = vless_frame 1 [] then example_header False
               else if u = fallbackUUID \<and> take 34 b = vless_frame 2 [] then example_header True
               else error_header),
      base64ToArrayBuffer =
        (\<lambda>t. if t = [] then \<lparr>earlyData = None, error = False\<rparr>
             else if t = ''AQID'' then \<lparr>earlyData = Some [1, 2, 3], error = False\<rparr>
             else \<lparr>earlyData = None, error = True\<rparr>)\<rparr>"

definition io_ok :: io where
  "io_ok = \<lparr>connect_ok = True, write_ok = True, random = ''0.5''\<rparr>"

definition io_write_fails :: io where
  "io_write_fails = \<lparr>connect_ok = True, write_ok = False, random = ''0.5''\<rparr>"

text \<open>The payload \<^verbatim>\<open>GET\<close> behind the header.\<close>

definition get_frame :: "byte list" where
  "get_frame = vless_frame 1 [71, 69, 84]"

section \<open>Properties\<close>

subsection \<open>Unfolding the callbacks\<close>

lemmas callback_defs =
  webSocket_onmessage_def dial_def failed_to_connect_def webSocket_onerror_def
  webSocket_onclose_def remote_write_def remote_close_def remote_abort_def
  remote_pipeTo_catch_def processWebSocket_catch_def idle_def

lemmas pipe_callback_defs =
  ws_write_def pipe_dial_def pipe_failed_to_connect_def ws_close_def ws_abort_def
  ws_pipeTo_catch_def remote_ready_def pipe_remote_write_def pipe_remote_close_def
  pipe_remote_abort_def pipe_processWebSocket_catch_def ws_chunk_step_def after_def idle_def

lemma connects_append: "connects (xs @ ys) = connects xs @ connects ys"
  by (simp add: connects_def)

lemma tcp_writes_append: "tcp_writes (xs @ ys) = tcp_writes xs @ tcp_writes ys"
  by (simp add: tcp_writes_def)

lemma ws_sends_append: "ws_sends (xs @ ys) = ws_sends xs @ ws_sends ys"
  by (simp add: ws_sends_def)

subsection \<open>The throttle of the stream variant\<close>

lemma pipe_remote_write_open:
  assumes "wsReadyState s = OPEN"
  shows "remoteChunkCount (st (pipe_remote_write s chunk)) = remoteChunkCount s + 1"
    and "acts (pipe_remote_write s chunk) =
           (if throttle_table (remoteChunkCount s + 1) = 0 then []
            else [Delay (throttle_table (remoteChunkCount s + 1))]) @ [WsSend chunk]"
    and "awaited_delay (pipe_remote_write s chunk) = throttle_table (remoteChunkCount s + 1)"
  using assms
  by (simp_all add: pipe_remote_write_def throttle_table_def awaited_delay_def Let_def)

lemma throttle_table_mono: "m \<le> n \<Longrightarrow> throttle_table m \<le> throttle_table n"
  by (simp add: throttle_table_def)

text \<open>
  Claim C1. While the socket is open, the \<^verbatim>\<open>write\<close> callback of the TCP-to-WebSocket
  pipe increments the session's chunk counter exactly once and then waits for the delay
  that the table of the specification gives for the incremented count, before it sends
  the chunk: nothing for a count below 20, 10 ms for 20 to 119, 20 ms for 120 to 499 and
  50 ms from 500 on. The delay depends on nothing but the count, it never decreases when
  the count grows, and at the boundaries it is 0 ms for 19, 10 ms for 20 and 119, 20 ms
  for 120 and 499, and 50 ms for 500 (the count before the increment being one less).
\<close>

theorem throttle_step_function:
  assumes "wsReadyState s = OPEN" and "wsReadyState s' = OPEN"
    and "remoteChunkCount s \<le> remoteChunkCount s'"
  shows "remoteChunkCount (st (pipe_remote_write s chunk)) = remoteChunkCount s + 1
       \<and> acts (pipe_remote_write s chunk) =
           (if throttle_table (remoteChunkCount s + 1) = 0 then []
            else [Delay (throttle_table (remoteChunkCount s + 1))]) @ [WsSend chunk]
       \<and> awaited_delay (pipe_remote_write s chunk) = throttle_table (remoteChunkCount s + 1)
       \<and> awaited_delay (pipe_remote_write s chunk) \<le> awaited_delay (pipe_remote_write s' chunk')
       \<and> awaited_delay (pipe_remote_write (s\<lparr>remoteChunkCount := 18\<rparr>) chunk) = 0
       \<and> awaited_delay (pipe_remote_write (s\<lparr>remoteChunkCount := 19\<rparr>) chunk) = 10
       \<and> awaited_delay (pipe_remote_write (s\<lparr>remoteChunkCount := 118\<rparr>) chunk) = 10
       \<and> awaited_delay (pipe_remote_write (s\<lparr>remoteChunkCount := 119\<rparr>) chunk) = 20
       \<and> awaited_delay (pipe_remote_write (s\<lparr>remoteChunkCount := 498\<rparr>) chunk) = 20
       \<and> awaited_delay (pipe_remote_write (s\<lparr>remoteChunkCount := 499\<rparr>) chunk) = 50"
proof -
  have mono: "awaited_delay (pipe_remote_write s chunk) \<le> awaited_delay (pipe_remote_write s' chunk')"
    using assms by (simp add: pipe_remote_write_open throttle_table_mono)
  have bounds: "awaited_delay (pipe_remote_write (s\<lparr>remoteChunkCount := k\<rparr>) chunk)
                  = throttle_table (k + 1)" for k
    using assms(1) by (simp add: pipe_remote_write_open)
  show ?thesis
    using assms(1) mono
    by (simp add: pipe_remote_write_open(1,2,3) bounds) (simp add: throttle_table_def)
qed

theorem throttle_step_function_witness:
  "wsReadyState (pipe_initial_session ''u'' OPEN) = OPEN
   \<and> remoteChunkCount (pipe_initial_session ''u'' OPEN)
       \<le> remoteChunkCount ((pipe_initial_session ''u'' OPEN)\<lparr>remoteChunkCount := 599\<rparr>)
   \<and> remoteChunkCount (st (pipe_remote_write (pipe_initial_session ''u'' OPEN) [7])) = 1
   \<and> acts (pipe_remote_write (pipe_initial_session ''u'' OPEN) [7]) = [WsSend [7]]
   \<and> awaited_delay (pipe_remote_write (pipe_initial_session ''u'' OPEN) [7]) = 0
   \<and> awaited_delay (pipe_remote_write
        ((pipe_initial_session ''u'' OPEN)\<lparr>remoteChunkCount := 599\<rparr>) [8]) = 50"
  using throttle_step_function
    [of "pipe_initial_session ''u'' OPEN"
        "(pipe_initial_session ''u'' OPEN)\<lparr>remoteChunkCount := 599\<rparr>" "[7]" "[8]"]
  by (simp add: pipe_initial_session_def pipe_remote_write_def awaited_delay_def
      throttle_table_def)

subsection \<open>A socket that has left \<^verbatim>\<open>OPEN\<close> is never dialled for\<close>

lemmas observation_defs = connects_def tcp_writes_def ws_sends_def log_def close_remote_def

lemma step_not_reopened:
  "wsReadyState s \<noteq> OPEN \<Longrightarrow> wsReadyState (st (step e s ev)) \<noteq> OPEN"
  by (cases ev)
     (auto simp: callback_defs closeWebSocket_def set_log_context_def Let_def
           split: if_splits prod.splits)

lemma step_no_dial: "\<not> is_frame ev \<Longrightarrow> connects (acts (step e s ev)) = []"
  by (cases ev)
     (auto simp: callback_defs observation_defs closeWebSocket_def Let_def split: option.splits)

lemma run_no_dial:
  "wsReadyState s \<noteq> OPEN \<Longrightarrow> frames_while_open e s evs \<Longrightarrow> connects (acts (run e s evs)) = []"
proof (induction evs arbitrary: s)
  case Nil
  then show ?case by (simp add: idle_def connects_def)
next
  case (Cons ev evs)
  from Cons.prems have nf: "\<not> is_frame ev" by (auto split: if_splits)
  have closed: "wsReadyState (st (step e s ev)) \<noteq> OPEN"
    using Cons.prems(1) by (rule step_not_reopened)
  have rest: "connects (acts (run e (st (step e s ev)) evs)) = []"
    using Cons.IH [OF closed] Cons.prems(2) by simp
  show ?case
    using step_no_dial [OF nf, of e s] rest by (simp add: Let_def connects_append)
qed

lemma pipe_step_not_reopened:
  "wsReadyState s \<noteq> OPEN \<Longrightarrow> wsReadyState (st (pipe_step e s ev)) \<noteq> OPEN"
  by (cases ev)
     (auto simp: pipe_callback_defs closeWebSocket_def set_log_context_def Let_def
           split: if_splits prod.splits)

lemma pipe_step_no_dial: "\<not> is_chunk ev \<Longrightarrow> connects (acts (pipe_step e s ev)) = []"
  by (cases ev)
     (auto simp: pipe_callback_defs observation_defs closeWebSocket_def Let_def split: option.splits)

lemma pipe_run_no_dial:
  "wsReadyState s \<noteq> OPEN \<Longrightarrow> chunks_while_open e s evs \<Longrightarrow>
   connects (acts (pipe_run e s evs)) = []"
proof (induction evs arbitrary: s)
  case Nil
  then show ?case by (simp add: idle_def connects_def)
next
  case (Cons ev evs)
  from Cons.prems have nf: "\<not> is_chunk ev" by (auto split: if_splits)
  have closed: "wsReadyState (st (pipe_step e s ev)) \<noteq> OPEN"
    using Cons.prems(1) by (rule pipe_step_not_reopened)
  have rest: "connects (acts (pipe_run e (st (pipe_step e s ev)) evs)) = []"
    using Cons.IH [OF closed] Cons.prems(2) by simp
  show ?case
    using pipe_step_no_dial [OF nf, of e s] rest by (simp add: Let_def connects_append)
qed

subsection \<open>A first frame whose header is rejected\<close>

lemma onmessage_rejected:
  assumes "\<not> readableStreamCancel s" and "remoteConnection s = None"
    and "header_rejected (processVlessHeader e buf (userID s))"
  shows "\<not> threw (webSocket_onmessage e i s buf)"
    and "wsReadyState (st (webSocket_onmessage e i s buf)) \<noteq> OPEN"
    and "remoteConnection (st (webSocket_onmessage e i s buf)) = None"
    and "acts (webSocket_onmessage e i s buf) =
           log (set_log_context i (processVlessHeader e buf (userID s)) s)
               (''VLESS header processing error: ''
                @ template_str (message (processVlessHeader e buf (userID s))))
           # (if wsReadyState s = OPEN then [WsClose] else [])"
  using assms
  by (simp_all add: webSocket_onmessage_def closeWebSocket_def set_log_context_def Let_def)





subsection \<open>A first frame that asks for UDP\<close>

lemma onmessage_udp:
  assumes "\<not> readableStreamCancel s" and "remoteConnection s = None"
    and "\<not> header_rejected (processVlessHeader e buf (userID s))"
    and "truthy (isUDP (processVlessHeader e buf (userID s)))"
  shows "\<not> threw (webSocket_onmessage e i s buf)"
    and "wsReadyState (st (webSocket_onmessage e i s buf)) \<noteq> OPEN"
    and "remoteConnection (st (webSocket_onmessage e i s buf)) = None"
    and "acts (webSocket_onmessage e i s buf) =
           log (set_log_context i (processVlessHeader e buf (userID s)) s)
               ''UDP command is not supported''
           # (if wsReadyState s = OPEN then [WsClose] else [])"
  using assms
  by (simp_all add: webSocket_onmessage_def closeWebSocket_def set_log_context_def Let_def)

lemma ws_write_udp:
  assumes "remoteConnection p = None"
    and "\<not> header_rejected (processVlessHeader e buf (userID p))"
    and "truthy (isUDP (processVlessHeader e buf (userID p)))"
  shows "\<not> threw (ws_write e i p buf)"
    and "wsReadyState (st (ws_write e i p buf)) \<noteq> OPEN"
    and "remoteConnection (st (ws_write e i p buf)) = None"
    and "acts (ws_write e i p buf) =
           log (set_log_context i (processVlessHeader e buf (userID p)) p)
               ''UDP command is not supported''
           # (if wsReadyState p = OPEN then [WsClose] else [])"
  using assms
  by (simp_all add: ws_write_def closeWebSocket_def set_log_context_def Let_def)

text \<open>
  Claim C6. When the first inbound frame decodes without error to a header whose command
  is UDP, the callback throws nothing, logs that UDP is not supported, closes the socket
  if it is open and returns: the socket is not open afterwards, no connection is dialled
  and \<^verbatim>\<open>remoteConnection\<close> stays \<^verbatim>\<open>null\<close>. As long as the platform delivers no further
  inbound frame on the socket that has left \<^verbatim>\<open>OPEN\<close>, no later event of the session
  dials either. This holds in the callback variant (first half) and in the stream variant
  (second half).
\<close>

theorem udp_header_closes_without_dial:
  assumes "\<not> readableStreamCancel s" and "remoteConnection s = None"
    and "\<not> header_rejected (processVlessHeader e buf (userID s))"
    and "truthy (isUDP (processVlessHeader e buf (userID s)))"
    and "frames_while_open e (st (webSocket_onmessage e i s buf)) evs"
    and "remoteConnection p = None"
    and "\<not> header_rejected (processVlessHeader e buf (userID p))"
    and "truthy (isUDP (processVlessHeader e buf (userID p)))"
    and "chunks_while_open e (st (ws_write e i p buf)) pevs"
  shows "\<not> threw (webSocket_onmessage e i s buf)
       \<and> wsReadyState (st (webSocket_onmessage e i s buf)) \<noteq> OPEN
       \<and> remoteConnection (st (webSocket_onmessage e i s buf)) = None
       \<and> acts (webSocket_onmessage e i s buf) =
           log (set_log_context i (processVlessHeader e buf (userID s)) s)
               ''UDP command is not supported''
           # (if wsReadyState s = OPEN then [WsClose] else [])
       \<and> connects (acts (webSocket_onmessage e i s buf)) = []
       \<and> connects (acts (run e (st (webSocket_onmessage e i s buf)) evs)) = []
       \<and> \<not> threw (ws_write e i p buf)
       \<and> wsReadyState (st (ws_write e i p buf)) \<noteq> OPEN
       \<and> remoteConnection (st (ws_write e i p buf)) = None
       \<and> acts (ws_write e i p buf) =
           log (set_log_context i (processVlessHeader e buf (userID p)) p)
               ''UDP command is not supported''
           # (if wsReadyState p = OPEN then [WsClose] else [])
       \<and> connects (acts (ws_write e i p buf)) = []
       \<and> connects (acts (pipe_run e (st (ws_write e i p buf)) pevs)) = []"
proof -
  note m = onmessage_udp [OF assms(1,2,3,4), of i]
  note q = ws_write_udp [OF assms(6,7,8), of i]
  have m5: "connects (acts (webSocket_onmessage e i s buf)) = []"
    by (simp add: m(4) connects_def log_def)
  have q5: "connects (acts (ws_write e i p buf)) = []"
    by (simp add: q(4) connects_def log_def)
  have m6: "connects (acts (run e (st (webSocket_onmessage e i s buf)) evs)) = []"
    using m(2) assms(5) by (rule run_no_dial)
  have q6: "connects (acts (pipe_run e (st (ws_write e i p buf)) pevs)) = []"
    using q(2) assms(9) by (rule pipe_run_no_dial)
  show ?thesis
    using m(1,2,3,4) q(1,2,3,4) m5 m6 q5 q6 by blast
qed

theorem udp_header_closes_without_dial_witness:
  "\<not> readableStreamCancel (initial_session fallbackUUID OPEN)
   \<and> remoteConnection (initial_session fallbackUUID OPEN) = None
   \<and> \<not> header_rejected (processVlessHeader example_env (vless_frame 2 [7])
          (userID (initial_session fallbackUUID OPEN)))
   \<and> truthy (isUDP (processVlessHeader example_env (vless_frame 2 [7])
          (userID (initial_session fallbackUUID OPEN))))
   \<and> frames_while_open example_env
       (st (webSocket_onmessage example_env io_ok (initial_session fallbackUUID OPEN)
              (vless_frame 2 [7])))
       [WsClosed]
   \<and> remoteConnection (pipe_initial_session fallbackUUID OPEN) = None
   \<and> \<not> header_rejected (processVlessHeader example_env (vless_frame 2 [7])
          (userID (pipe_initial_session fallbackUUID OPEN)))
   \<and> truthy (isUDP (processVlessHeader example_env (vless_frame 2 [7])
          (userID (pipe_initial_session fallbackUUID OPEN))))
   \<and> chunks_while_open example_env
       (st (ws_write example_env io_ok (pipe_initial_session fallbackUUID OPEN)
              (vless_frame 2 [7])))
       [WsStreamClosed]
   \<and> acts (webSocket_onmessage example_env io_ok (initial_session fallbackUUID OPEN)
              (vless_frame 2 [7]))
       = [ConsoleLog ''[example.com:80--0.5] UDP command is not supported'', WsClose]
   \<and> connects (acts (run example_env
       (st (webSocket_onmessage example_env io_ok (initial_session fallbackUUID OPEN)
              (vless_frame 2 [7])))
       [WsClosed])) = []
   \<and> acts (ws_write example_env io_ok (pipe_initial_session fallbackUUID OPEN)
              (vless_frame 2 [7]))
       = [ConsoleLog ''[example.com:80--0.5] UDP command is not supported'', WsClose]
   \<and> connects (acts (pipe_run example_env
       (st (ws_write example_env io_ok (pipe_initial_session fallbackUUID OPEN)
              (vless_frame 2 [7])))
       [WsStreamClosed])) = []"
proof -
  have h1: "\<not> readableStreamCancel (initial_session fallbackUUID OPEN)"
    and h2: "remoteConnection (initial_session fallbackUUID OPEN) = None"
    and h6: "remoteConnection (pipe_initial_session fallbackUUID OPEN) = None"
    by (simp_all add: initial_session_def pipe_initial_session_def)
  have h3: "\<not> header_rejected (processVlessHeader example_env (vless_frame 2 [7])
          (userID (initial_session fallbackUUID OPEN)))"
    by code_simp
  have h4: "truthy (isUDP (processVlessHeader example_env (vless_frame 2 [7])
          (userID (initial_session fallbackUUID OPEN))))"
    by code_simp
  have h5: "frames_while_open example_env
       (st (webSocket_onmessage example_env io_ok (initial_session fallbackUUID OPEN)
              (vless_frame 2 [7])))
       [WsClosed]"
    by code_simp
  have h7: "\<not> header_rejected (processVlessHeader example_env (vless_frame 2 [7])
          (userID (pipe_initial_session fallbackUUID OPEN)))"
    by code_simp
  have h8: "truthy (isUDP (processVlessHeader example_env (vless_frame 2 [7])
          (userID (pipe_initial_session fallbackUUID OPEN))))"
    by code_simp
  have h9: "chunks_while_open example_env
       (st (ws_write example_env io_ok (pipe_initial_session fallbackUUID OPEN)
              (vless_frame 2 [7])))
       [WsStreamClosed]"
    by code_simp
  have l1: "log (set_log_context io_ok (processVlessHeader example_env (vless_frame 2 [7])
                 (userID (initial_session fallbackUUID OPEN))) (initial_session fallbackUUID OPEN))
              ''UDP command is not supported''
            = ConsoleLog ''[example.com:80--0.5] UDP command is not supported''"
    by code_simp
  have l2: "log (set_log_context io_ok (processVlessHeader example_env (vless_frame 2 [7])
                 (userID (pipe_initial_session fallbackUUID OPEN)))
                 (pipe_initial_session fallbackUUID OPEN))
              ''UDP command is not supported''
            = ConsoleLog ''[example.com:80--0.5] UDP command is not supported''"
    by code_simp
  have o1: "wsReadyState (initial_session fallbackUUID OPEN) = OPEN"
    and o2: "wsReadyState (pipe_initial_session fallbackUUID OPEN) = OPEN"
    by (simp_all add: initial_session_def pipe_initial_session_def)
  show ?thesis
    using udp_header_closes_without_dial [OF h1 h2 h3 h4 h5 h6 h7 h8 h9]
      h1 h2 h3 h4 h5 h6 h7 h8 h9
    by (simp add: l1 l2 o1 o2)
qed

subsection \<open>Nothing is written to TCP before a connection exists\<close>

lemma step_no_connection:
  "remoteConnection (st (step e s ev)) = None \<Longrightarrow>
   remoteConnection s = None \<and> tcp_writes (acts (step e s ev)) = [] \<and> \<not> threw (step e s ev)"
  by (cases ev)
     (auto simp: callback_defs observation_defs closeWebSocket_def set_log_context_def Let_def
           split: if_splits prod.splits option.splits)

lemma run_no_connection:
  "remoteConnection (st (run e s evs)) = None \<Longrightarrow>
   remoteConnection s = None \<and> tcp_writes (acts (run e s evs)) = [] \<and> \<not> threw (run e s evs)"
proof (induction evs arbitrary: s)
  case Nil
  then show ?case by (simp add: idle_def tcp_writes_def)
next
  case (Cons ev evs)
  show ?case
  proof (cases "threw (step e s ev)")
    case True
    with Cons.prems step_no_connection [of e s ev] show ?thesis by simp
  next
    case False
    with Cons.prems have "remoteConnection (st (run e (st (step e s ev)) evs)) = None"
      by (simp add: Let_def)
    from Cons.IH [OF this] step_no_connection [of e s ev] False show ?thesis
      by (simp add: Let_def tcp_writes_append)
  qed
qed

lemma run_append:
  "\<not> threw (run e s xs) \<Longrightarrow>
   acts (run e s (xs @ ys)) = acts (run e s xs) @ acts (run e (st (run e s xs)) ys)"
proof (induction xs arbitrary: s)
  case Nil
  then show ?case by (simp add: idle_def)
next
  case (Cons x xs)
  then show ?case by (auto simp: Let_def split: if_splits)
qed

lemma run_frame:
  "\<not> threw (step e s ev) \<Longrightarrow> acts (run e s (ev # evs)) = acts (step e s ev) @ acts (run e (st (step e s ev)) evs)"
  by (simp add: Let_def)

lemma processWebSocket_writes_nothing: "tcp_writes (acts (processWebSocket e i uid ws early)) = []"
  by (simp add: processWebSocket_def initial_session_def closeWebSocket_def tcp_writes_def
      log_def Let_def split: option.splits)

lemma onmessage_dial:
  assumes "\<not> readableStreamCancel s" and "remoteConnection s = None"
    and "\<not> header_rejected (processVlessHeader e buf (userID s))"
    and "\<not> truthy (isUDP (processVlessHeader e buf (userID s)))"
    and "rawDataIndex (processVlessHeader e buf (userID s)) = Some k"
    and "drop k buf \<noteq> []"
    and "connect_ok i"
  shows "tcp_writes (acts (webSocket_onmessage e i s buf)) = [drop k buf]"
    and "\<not> threw (webSocket_onmessage e i s buf)"
    and "connects (acts (webSocket_onmessage e i s buf)) =
           [(or_empty (addressRemote (processVlessHeader e buf (userID s))),
             the (portRemote (processVlessHeader e buf (userID s))))]"
  using assms
  by (auto simp: webSocket_onmessage_def dial_def failed_to_connect_def closeWebSocket_def
      set_log_context_def rawClientData_def observation_defs Let_def header_rejected_def falsy_num_def
      split: option.splits)

subsection \<open>The same for the stream variant\<close>

lemma fst_closeWebSocket:
  "fst (closeWebSocket s) =
     s\<lparr>wsReadyState := (if wsReadyState s = OPEN then CLOSING else wsReadyState s)\<rparr>"
  by (simp add: closeWebSocket_def)

lemma snd_closeWebSocket:
  "snd (closeWebSocket s) = (if wsReadyState s = OPEN then [WsClose] else [])"
  by (simp add: closeWebSocket_def)

lemma tcp_writes_simps:
  "tcp_writes [] = []" "tcp_writes (TcpWrite b # xs) = b # tcp_writes xs"
  "tcp_writes (log s t # xs) = tcp_writes xs"
  "tcp_writes (Connect a n # xs) = tcp_writes xs"
  "tcp_writes (WsSend b # xs) = tcp_writes xs"
  "tcp_writes (WsClose # xs) = tcp_writes xs"
  "tcp_writes (TcpClose # xs) = tcp_writes xs"
  "tcp_writes (Delay d # xs) = tcp_writes xs"
  "tcp_writes (ControllerError t # xs) = tcp_writes xs"
  "tcp_writes (ConsoleError t # xs) = tcp_writes xs"
  "tcp_writes (close_remote s) = []"
  "tcp_writes (snd (closeWebSocket s)) = []"
  by (simp_all add: observation_defs closeWebSocket_def split: option.splits)

lemmas closing = fst_closeWebSocket snd_closeWebSocket split_beta Let_def

lemma pipe_step_caught: "\<not> threw (pipe_step e s ev)"
  by (cases ev) (simp_all add: pipe_callback_defs closing)

lemma pipe_run_caught: "\<not> threw (pipe_run e s evs)"
  by (induction evs arbitrary: s) (simp_all add: idle_def Let_def pipe_step_caught)

lemma ws_write_no_connection:
  "remoteConnection (st (ws_write e i s b)) = None \<Longrightarrow>
   remoteConnection s = None \<and> tcp_writes (acts (ws_write e i s b)) = []
   \<and> \<not> threw (ws_write e i s b) \<and> \<not> readyResolved (st (ws_write e i s b)) = (\<not> readyResolved s)"
  by (simp add: ws_write_def pipe_dial_def pipe_failed_to_connect_def closing
      set_log_context_def tcp_writes_append tcp_writes_simps split: if_splits)

lemma pipe_step_no_connection:
  "remoteConnection (st (pipe_step e s ev)) = None \<Longrightarrow>
   remoteConnection s = None \<and> tcp_writes (acts (pipe_step e s ev)) = []"
proof (cases ev)
  case (WsChunk b i)
  assume a: "remoteConnection (st (pipe_step e s ev)) = None"
  have "remoteConnection (st (ws_write e i s b)) = None"
  proof (rule ccontr)
    assume "remoteConnection (st (ws_write e i s b)) \<noteq> None"
    with a WsChunk show False
      by (simp add: ws_chunk_step_def after_def ws_pipeTo_catch_def remote_ready_def closing
          split: if_splits)
  qed
  from ws_write_no_connection [OF this] show ?thesis
    using WsChunk by (simp add: ws_chunk_step_def)
qed (simp_all add: pipe_callback_defs closing tcp_writes_append tcp_writes_simps split: if_splits)

lemma pipe_run_no_connection:
  "remoteConnection (st (pipe_run e s evs)) = None \<Longrightarrow>
   remoteConnection s = None \<and> tcp_writes (acts (pipe_run e s evs)) = []"
proof (induction evs arbitrary: s)
  case Nil
  then show ?case by (simp add: idle_def tcp_writes_def)
next
  case (Cons ev evs)
  from Cons.prems have "remoteConnection (st (pipe_run e (st (pipe_step e s ev)) evs)) = None"
    by (simp add: Let_def pipe_step_caught)
  from Cons.IH [OF this] pipe_step_no_connection [of e s ev] show ?case
    by (simp add: Let_def tcp_writes_append pipe_step_caught)
qed

lemma pipe_run_append:
  "acts (pipe_run e s (xs @ ys)) = acts (pipe_run e s xs) @ acts (pipe_run e (st (pipe_run e s xs)) ys)"
  by (induction xs arbitrary: s) (simp_all add: idle_def Let_def pipe_step_caught)

lemma pipe_run_chunk:
  "acts (pipe_run e s (ev # evs)) = acts (pipe_step e s ev) @ acts (pipe_run e (st (pipe_step e s ev)) evs)"
  by (simp add: Let_def pipe_step_caught)

lemma ws_write_dial:
  assumes "remoteConnection p = None"
    and "\<not> header_rejected (processVlessHeader e buf (userID p))"
    and "\<not> truthy (isUDP (processVlessHeader e buf (userID p)))"
    and "rawDataIndex (processVlessHeader e buf (userID p)) = Some k"
    and "drop k buf \<noteq> []"
    and "connect_ok i"
  shows "tcp_writes (acts (ws_write e i p buf)) = [drop k buf]"
    and "\<not> threw (ws_write e i p buf)"
  using assms
  by (simp_all add: ws_write_def pipe_dial_def pipe_failed_to_connect_def closing
      set_log_context_def rawClientData_def tcp_writes_append tcp_writes_simps)

lemma ws_chunk_step_writes:
  "\<not> threw (ws_write e i p buf) \<Longrightarrow>
   tcp_writes (acts (pipe_step e p (WsChunk buf i))) = tcp_writes (acts (ws_write e i p buf))"
  by (simp add: ws_chunk_step_def after_def remote_ready_def Let_def tcp_writes_append
      tcp_writes_simps)

subsection \<open>The trailing bytes of the first frame\<close>

text \<open>
  The stream variant. Take any session up to a point where no connection exists yet, and
  let the next inbound chunk decode to an accepted TCP header whose \<^verbatim>\<open>rawDataIndex\<close> is
  \<open>k\<close>, with bytes behind the header and a dial that succeeds. Then nothing has been
  written to TCP before, the callback writes exactly the bytes of the chunk from \<open>k\<close> to
  its end, and in the whole session that write comes first: whatever later chunks are
  relayed is written after it.
\<close>

lemma stream_variant_trailing_bytes_first:
  fixes e :: env and uid :: string and ws :: readyState and pre :: "pipe_event list"
    and p :: pipe_session
  defines "p \<equiv> st (pipe_run e (pipe_initial_session uid ws) pre)"
  assumes "remoteConnection p = None"
    and "\<not> header_rejected (processVlessHeader e buf (userID p))"
    and "\<not> truthy (isUDP (processVlessHeader e buf (userID p)))"
    and "rawDataIndex (processVlessHeader e buf (userID p)) = Some k"
    and "drop k buf \<noteq> []"
    and "connect_ok i"
  shows "tcp_writes (acts (pipe_run e (pipe_initial_session uid ws) pre)) = []
       \<and> tcp_writes (acts (ws_write e i p buf)) = [drop k buf]
       \<and> tcp_writes (acts (pipe_run e (pipe_initial_session uid ws) (pre @ WsChunk buf i # post)))
           = drop k buf # tcp_writes (acts (pipe_run e (st (pipe_step e p (WsChunk buf i))) post))"
proof -
  have p_none: "remoteConnection (st (pipe_run e (pipe_initial_session uid ws) pre)) = None"
    using assms(2) by (simp add: p_def)
  note before = pipe_run_no_connection [OF p_none]
  note q = ws_write_dial [OF assms(2,3,4,5,6,7)]
  have q2: "tcp_writes (acts (pipe_step e p (WsChunk buf i))) = [drop k buf]"
    using ws_chunk_step_writes [OF q(2)] q(1) by simp
  have whole: "tcp_writes (acts (pipe_run e (pipe_initial_session uid ws) (pre @ WsChunk buf i # post)))
           = drop k buf # tcp_writes (acts (pipe_run e (st (pipe_step e p (WsChunk buf i))) post))"
    using before q2
    by (simp add: pipe_run_append [of e _ pre] pipe_run_chunk tcp_writes_append p_def
        del: pipe_step.simps pipe_run.simps)
  show ?thesis
    using before q(1) whole by simp
qed

text \<open>
  The callback variant does the same in the schedules of \<open>run\<close>, in which the dial and
  the write of the trailing bytes settle before the next event is dispatched.
\<close>

lemma callback_variant_trailing_bytes_first_uninterrupted:
  fixes e :: env and i0 :: io and uid early :: string and ws :: readyState
    and pre :: "event list" and s :: main_session
  defines "s \<equiv> st (session_run e i0 uid ws early pre)"
  assumes "\<not> readableStreamCancel s" and "remoteConnection s = None"
    and "\<not> header_rejected (processVlessHeader e buf (userID s))"
    and "\<not> truthy (isUDP (processVlessHeader e buf (userID s)))"
    and "rawDataIndex (processVlessHeader e buf (userID s)) = Some k"
    and "drop k buf \<noteq> []"
    and "connect_ok i"
  shows "tcp_writes (acts (session_run e i0 uid ws early pre)) = []
       \<and> tcp_writes (acts (webSocket_onmessage e i s buf)) = [drop k buf]
       \<and> tcp_writes (acts (session_run e i0 uid ws early (pre @ WsMessage buf i # post)))
           = drop k buf # tcp_writes (acts (run e (st (webSocket_onmessage e i s buf)) post))"
proof -
  let ?s0 = "st (processWebSocket e i0 uid ws early)"
  have s_run: "s = st (run e ?s0 pre)"
    by (simp add: s_def session_run_def Let_def)
  from assms(3) have none: "remoteConnection (st (run e ?s0 pre)) = None"
    by (simp add: s_run)
  note before = run_no_connection [OF none]
  have a1: "tcp_writes (acts (session_run e i0 uid ws early pre)) = []"
    using before by (simp add: session_run_def Let_def tcp_writes_append
        processWebSocket_writes_nothing)
  note m = onmessage_dial [OF assms(2,3,4,5,6,7,8)]
  have a3: "tcp_writes (acts (session_run e i0 uid ws early (pre @ WsMessage buf i # post)))
           = drop k buf # tcp_writes (acts (run e (st (webSocket_onmessage e i s buf)) post))"
  proof -
    have "acts (run e ?s0 (pre @ WsMessage buf i # post))
            = acts (run e ?s0 pre) @ acts (run e s (WsMessage buf i # post))"
      using before run_append [of e ?s0 pre] by (simp add: s_run)
    moreover have "acts (run e s (WsMessage buf i # post))
            = acts (webSocket_onmessage e i s buf)
              @ acts (run e (st (webSocket_onmessage e i s buf)) post)"
      using m(2) run_frame [of e s "WsMessage buf i" post] by simp
    ultimately show ?thesis
      using before m(1)
      by (simp add: session_run_def Let_def tcp_writes_append processWebSocket_writes_nothing)
  qed
  show ?thesis
    using a1 m(1) a3 by simp
qed

text \<open>
  These schedules are among the interleaved ones: a frame followed at once by the settling
  of its dial and of its trailing write does what \<open>webSocket_onmessage\<close> does in one step.
\<close>

lemma uninterrupted_dial:
  "acts (interleaved_run e (s, ts)
       [Arrives (WsMessage b i), ConnectSettled (length ts) (connect_ok i),
        TrailingWriteSettled (length ts) (write_ok i)])
     = acts (webSocket_onmessage e i s b)
   \<and> fst (st (interleaved_run e (s, ts)
       [Arrives (WsMessage b i), ConnectSettled (length ts) (connect_ok i),
        TrailingWriteSettled (length ts) (write_ok i)]))
     = st (webSocket_onmessage e i s b)
   \<and> threw (interleaved_run e (s, ts)
       [Arrives (WsMessage b i), ConnectSettled (length ts) (connect_ok i),
        TrailingWriteSettled (length ts) (write_ok i)])
     = threw (webSocket_onmessage e i s b)"
  by (simp add: onmessage_begin_def webSocket_onmessage_def dial_def connect_settled_def
      trailing_write_settled_def failed_to_connect_def idle_def closing nth_append)

text \<open>
  Claim C9 fails in \<^verbatim>\<open>src/apps/deno-vless/src/main.ts\<close>. The client sends the header frame
  for \<^verbatim>\<open>example.com:80\<close> with the payload \<^verbatim>\<open>GET\<close> and, while \<^verbatim>\<open>Deno.connect\<close> is pending, a
  second header frame with the payload \<^verbatim>\<open>PUT\<close>: \<^verbatim>\<open>remoteConnection\<close> is still \<^verbatim>\<open>null\<close>, so
  the second frame is decoded as a header and dialled for as well. The second dial
  resolves first and its trailing bytes are written; a third frame, the byte 9, is then
  relayed; only then the first dial resolves and the trailing bytes of the first frame are
  written. The TCP writes are \<^verbatim>\<open>PUT\<close>, 9, \<^verbatim>\<open>GET\<close>: a later frame is relayed before the
  trailing bytes of the first. On the same three frames the stream variant, whose
  \<^verbatim>\<open>write\<close> is not called again before the dial has settled, writes \<^verbatim>\<open>GET\<close> first and
  relays the two later frames after it.
\<close>

theorem callback_variant_relays_before_trailing_bytes:
  "tcp_writes (acts (interleaved_run example_env
        (st (processWebSocket example_env io_ok fallbackUUID OPEN []), [])
        [Arrives (WsMessage get_frame io_ok),
         Arrives (WsMessage (vless_frame 1 [80, 85, 84]) io_ok),
         ConnectSettled 1 True, TrailingWriteSettled 1 True,
         Arrives (WsMessage [9] io_ok),
         ConnectSettled 0 True]))
     = [[80, 85, 84], [9], [71, 69, 84]]
   \<and> connects (acts (interleaved_run example_env
        (st (processWebSocket example_env io_ok fallbackUUID OPEN []), [])
        [Arrives (WsMessage get_frame io_ok),
         Arrives (WsMessage (vless_frame 1 [80, 85, 84]) io_ok),
         ConnectSettled 1 True, TrailingWriteSettled 1 True,
         Arrives (WsMessage [9] io_ok),
         ConnectSettled 0 True]))
     = [(''example.com'', 80), (''example.com'', 80)]
   \<and> tcp_writes (acts (pipe_run example_env (pipe_initial_session fallbackUUID OPEN)
        [WsChunk get_frame io_ok, WsChunk (vless_frame 1 [80, 85, 84]) io_ok,
         WsChunk [9] io_ok]))
     = [[71, 69, 84], vless_frame 1 [80, 85, 84], [9]]"
  by code_simp

subsection \<open>An early-data header that does not decode\<close>

lemma connects_simps:
  "connects [] = []" "connects (Connect a n # xs) = (a, n) # connects xs"
  "connects (log s t # xs) = connects xs"
  "connects (TcpWrite b # xs) = connects xs"
  "connects (WsSend b # xs) = connects xs"
  "connects (WsClose # xs) = connects xs"
  "connects (TcpClose # xs) = connects xs"
  "connects (Delay d # xs) = connects xs"
  "connects (ControllerError t # xs) = connects xs"
  "connects (ConsoleError t # xs) = connects xs"
  "connects (close_remote s) = []"
  "connects (snd (closeWebSocket s)) = []"
  by (simp_all add: observation_defs closeWebSocket_def split: option.splits)

lemma step_dead:
  assumes "wsReadyState s \<noteq> OPEN" and "remoteConnection s = None" and "\<not> remotePiped s"
    and "\<not> is_frame ev"
  shows "filter socket_call (acts (step e s ev)) = []"
    and "wsReadyState (st (step e s ev)) \<noteq> OPEN"
    and "remoteConnection (st (step e s ev)) = None"
    and "\<not> remotePiped (st (step e s ev))"
    and "\<not> threw (step e s ev)"
  using assms
  by (cases ev; simp add: callback_defs closing log_def close_remote_def)+

lemma run_dead:
  "wsReadyState s \<noteq> OPEN \<Longrightarrow> remoteConnection s = None \<Longrightarrow> \<not> remotePiped s \<Longrightarrow>
   frames_while_open e s evs \<Longrightarrow>
   filter socket_call (acts (run e s evs)) = [] \<and> \<not> threw (run e s evs)"
proof (induction evs arbitrary: s)
  case Nil
  then show ?case by (simp add: idle_def)
next
  case (Cons ev evs)
  from Cons.prems(4) have nf: "\<not> is_frame ev"
    using Cons.prems(1) by (auto split: if_splits)
  note d = step_dead [OF Cons.prems(1,2,3) nf, of e]
  from Cons.prems(4) have "frames_while_open e (st (step e s ev)) evs" by simp
  from Cons.IH [OF d(2,3,4) this] d(1,5) show ?case
    by (simp add: Let_def)
qed

lemma processWebSocket_undecodable:
  assumes "error (base64ToArrayBuffer e early)"
  shows "st (processWebSocket e i uid ws early) = fst (closeWebSocket (initial_session uid ws))"
    and "acts (processWebSocket e i uid ws early) =
           log (initial_session uid ws) ''earlyDataHeader has invaild base64''
           # (if ws = OPEN then [WsClose] else [])"
    and "\<not> threw (processWebSocket e i uid ws early)"
  using assms
  by (simp_all add: processWebSocket_def closing) (simp add: initial_session_def)

text \<open>
  Claim C8. When \<^verbatim>\<open>base64ToArrayBuffer\<close> reports an error for the early-data header,
  \<^verbatim>\<open>processWebSocket\<close> of the callback variant throws nothing, logs the failure, closes the
  socket if it is open and returns, so the socket is not open afterwards. Its socket calls
  and the socket state it leaves are those of the protocol-error branch taken by a first
  frame whose header is rejected, and neither throws. As long as the platform delivers no
  inbound frame on the socket that has left \<^verbatim>\<open>OPEN\<close>, the rest of the session makes no
  call but logging and throws nothing.
\<close>

theorem undecodable_early_data_ends_session:
  assumes "error (base64ToArrayBuffer e early)"
    and "header_rejected (processVlessHeader e buf uid)"
    and "frames_while_open e (st (processWebSocket e i uid ws early)) evs"
  shows "\<not> threw (processWebSocket e i uid ws early)
       \<and> wsReadyState (st (processWebSocket e i uid ws early)) \<noteq> OPEN
       \<and> acts (processWebSocket e i uid ws early) =
           log (initial_session uid ws) ''earlyDataHeader has invaild base64''
           # (if ws = OPEN then [WsClose] else [])
       \<and> filter socket_call (acts (processWebSocket e i uid ws early)) =
           filter socket_call (acts (webSocket_onmessage e i' (initial_session uid ws) buf))
       \<and> wsReadyState (st (processWebSocket e i uid ws early)) =
           wsReadyState (st (webSocket_onmessage e i' (initial_session uid ws) buf))
       \<and> \<not> threw (webSocket_onmessage e i' (initial_session uid ws) buf)
       \<and> filter socket_call (acts (run e (st (processWebSocket e i uid ws early)) evs)) = []
       \<and> \<not> threw (run e (st (processWebSocket e i uid ws early)) evs)
       \<and> filter socket_call (acts (session_run e i uid ws early evs)) =
           (if ws = OPEN then [WsClose] else [])
       \<and> \<not> threw (session_run e i uid ws early evs)"
proof -
  note u = processWebSocket_undecodable [OF assms(1), of i uid ws]
  have fresh: "\<not> readableStreamCancel (initial_session uid ws)"
    "remoteConnection (initial_session uid ws) = None"
    "userID (initial_session uid ws) = uid"
    "wsReadyState (initial_session uid ws) = ws"
    "\<not> remotePiped (initial_session uid ws)"
    by (simp_all add: initial_session_def)
  have rej: "header_rejected (processVlessHeader e buf (userID (initial_session uid ws)))"
    using assms(2) by (simp add: fresh)
  have m3: "\<not> threw (webSocket_onmessage e i' (initial_session uid ws) buf)"
    using fresh(1,2) rej by (rule onmessage_rejected(1))
  have m4: "acts (webSocket_onmessage e i' (initial_session uid ws) buf) =
           log (set_log_context i' (processVlessHeader e buf (userID (initial_session uid ws)))
                 (initial_session uid ws))
               (''VLESS header processing error: ''
                @ template_str (message (processVlessHeader e buf (userID (initial_session uid ws)))))
           # (if wsReadyState (initial_session uid ws) = OPEN then [WsClose] else [])"
    using fresh(1,2) rej by (rule onmessage_rejected(4))
  have same_calls: "filter socket_call (acts (processWebSocket e i uid ws early)) =
           filter socket_call (acts (webSocket_onmessage e i' (initial_session uid ws) buf))"
    by (simp add: u(2) m4 fresh log_def)
  have same_state: "wsReadyState (st (processWebSocket e i uid ws early)) =
           wsReadyState (st (webSocket_onmessage e i' (initial_session uid ws) buf))"
    using rej
    by (simp add: u(1) webSocket_onmessage_def closing fresh set_log_context_def)
  have closed: "wsReadyState (st (processWebSocket e i uid ws early)) \<noteq> OPEN"
    by (simp add: u(1) fst_closeWebSocket)
  have dead: "remoteConnection (st (processWebSocket e i uid ws early)) = None"
    "\<not> remotePiped (st (processWebSocket e i uid ws early))"
    by (simp_all add: u(1) fst_closeWebSocket fresh)
  note rest = run_dead [OF closed dead assms(3)]
  have whole: "filter socket_call (acts (session_run e i uid ws early evs)) =
           (if ws = OPEN then [WsClose] else [])"
    "\<not> threw (session_run e i uid ws early evs)"
    using rest by (simp_all add: session_run_def Let_def u(2) log_def)
  show ?thesis
    using u(2,3) closed same_calls same_state m3 rest whole by blast
qed

theorem undecodable_early_data_ends_session_witness:
  "error (base64ToArrayBuffer example_env ''%%%'')
   \<and> header_rejected (processVlessHeader example_env [1, 2, 3] fallbackUUID)
   \<and> frames_while_open example_env
       (st (processWebSocket example_env io_ok fallbackUUID OPEN ''%%%'')) [WsClosed]
   \<and> acts (processWebSocket example_env io_ok fallbackUUID OPEN ''%%%'') =
       [ConsoleLog ''[:] earlyDataHeader has invaild base64'', WsClose]
   \<and> wsReadyState (st (processWebSocket example_env io_ok fallbackUUID OPEN ''%%%'')) \<noteq> OPEN
   \<and> filter socket_call (acts (session_run example_env io_ok fallbackUUID OPEN ''%%%'' [WsClosed]))
       = [WsClose]
   \<and> \<not> threw (session_run example_env io_ok fallbackUUID OPEN ''%%%'' [WsClosed])"
proof -
  have h1: "error (base64ToArrayBuffer example_env ''%%%'')"
    by code_simp
  have h2: "header_rejected (processVlessHeader example_env [1, 2, 3] fallbackUUID)"
    by code_simp
  have h3: "frames_while_open example_env
       (st (processWebSocket example_env io_ok fallbackUUID OPEN ''%%%'')) [WsClosed]"
    by code_simp
  have l: "log (initial_session fallbackUUID OPEN) ''earlyDataHeader has invaild base64''
           = ConsoleLog ''[:] earlyDataHeader has invaild base64''"
    by code_simp
  note w = undecodable_early_data_ends_session [OF h1 h2 h3, of io_ok]
  from w have c1: "wsReadyState (st (processWebSocket example_env io_ok fallbackUUID OPEN ''%%%''))
      \<noteq> OPEN"
    by blast
  from w have c2: "filter socket_call
      (acts (session_run example_env io_ok fallbackUUID OPEN ''%%%'' [WsClosed]))
      = (if OPEN = OPEN then [WsClose] else [])"
    by blast
  from w have c3: "\<not> threw (session_run example_env io_ok fallbackUUID OPEN ''%%%'' [WsClosed])"
    by blast
  from w have c4: "acts (processWebSocket example_env io_ok fallbackUUID OPEN ''%%%'') =
      log (initial_session fallbackUUID OPEN) ''earlyDataHeader has invaild base64''
      # (if OPEN = OPEN then [WsClose] else [])"
    by blast
  show ?thesis
    using h1 h2 h3 c1 c2 c3 c4 by (simp add: l)
qed

subsection \<open>After the error callback has set \<open>readableStreamCancel\<close>\<close>

lemma step_cancelled:
  assumes "readableStreamCancel s"
  shows "readableStreamCancel (st (step e s ev))"
    and "connects (acts (step e s ev)) = []"
    and "tcp_writes (acts (step e s ev)) = []"
    and "\<not> threw (step e s ev)"
  using assms
  by (cases ev; simp add: callback_defs closing connects_simps tcp_writes_simps)+

lemma run_cancelled:
  "readableStreamCancel s \<Longrightarrow>
   readableStreamCancel (st (run e s evs)) \<and> connects (acts (run e s evs)) = []
   \<and> tcp_writes (acts (run e s evs)) = [] \<and> \<not> threw (run e s evs)"
proof (induction evs arbitrary: s)
  case Nil
  then show ?case by (simp add: idle_def connects_simps tcp_writes_simps)
next
  case (Cons ev evs)
  note c = step_cancelled [OF Cons.prems, of e ev]
  from Cons.IH [OF c(1)] c show ?case
    by (simp add: Let_def connects_append tcp_writes_append)
qed

lemma step_closed_socket:
  "wsReadyState t \<noteq> OPEN \<Longrightarrow> WsClose \<notin> set (acts (step e t ev))"
  by (cases ev;
      simp add: callback_defs closing log_def close_remote_def set_log_context_def
           split: option.splits)

lemma step_tests_flag:
  assumes "readableStreamCancel s" and "tests_flag ev"
  shows "\<not> threw (step e s ev)"
    and "filter socket_call (acts (step e s ev)) = []"
    and "readableStreamCancel (st (step e s ev))"
    and "remoteConnection (st (step e s ev)) = remoteConnection s"
  using assms
  by (cases ev; simp add: webSocket_onmessage_def webSocket_onclose_def log_def)+

lemma run_tests_flag:
  "readableStreamCancel s \<Longrightarrow> list_all tests_flag evs \<Longrightarrow>
   \<not> threw (run e s evs) \<and> filter socket_call (acts (run e s evs)) = []
   \<and> remoteConnection (st (run e s evs)) = remoteConnection s"
proof (induction evs arbitrary: s)
  case Nil
  then show ?case by (simp add: idle_def)
next
  case (Cons ev evs)
  from Cons.prems(2) have f: "tests_flag ev" and rest: "list_all tests_flag evs"
    by simp_all
  note c = step_tests_flag [OF Cons.prems(1) f, of e]
  from Cons.IH [OF c(3) rest] c show ?case
    by (simp add: Let_def)
qed

text \<open>
  Claim C7, as amended. Once \<open>readableStreamCancel\<close> is set (only \<^verbatim>\<open>webSocket.onerror\<close>
  sets it), the flag is the first thing \<^verbatim>\<open>onmessage\<close> checks: a later inbound frame
  changes nothing and makes no call, so it is neither decoded nor written to TCP. A later
  \<^verbatim>\<open>close\<close> event only logs and leaves the TCP connection alone. Any list of later frames
  and \<^verbatim>\<open>close\<close> events therefore makes no call but logging, throws nothing and leaves
  \<^verbatim>\<open>remoteConnection\<close> as it is. The flag stays set, and no callback that starts later
  dials or writes to TCP. A callback run while the socket is not open makes no \<^verbatim>\<open>close\<close>
  call on the socket (this rests on \<open>closeWebSocket\<close>, which is modelled from the
  specification). The flag is consulted by \<^verbatim>\<open>onmessage\<close> and \<^verbatim>\<open>onclose\<close> only:
  \<^verbatim>\<open>onerror\<close> and the \<^verbatim>\<open>write\<close> callback of the TCP pipe call \<^verbatim>\<open>remoteConnection.close()\<close>
  again whatever the flag says and outside any \<^verbatim>\<open>try\<close>; whether that call raises is not
  stated here.
\<close>

theorem cancelled_session_ignores_frames:
  assumes "readableStreamCancel s" and "wsReadyState t \<noteq> OPEN"
    and "list_all tests_flag fevs"
  shows "webSocket_onmessage e i s buf = idle s
       \<and> webSocket_onclose s = \<lparr>st = s, acts = [log s ''webSocket is close''], threw = False\<rparr>
       \<and> \<not> threw (run e s fevs)
       \<and> filter socket_call (acts (run e s fevs)) = []
       \<and> remoteConnection (st (run e s fevs)) = remoteConnection s
       \<and> readableStreamCancel (st (run e s evs))
       \<and> connects (acts (run e s evs)) = []
       \<and> tcp_writes (acts (run e s evs)) = []
       \<and> WsClose \<notin> set (acts (step e t ev))"
  using assms run_cancelled [OF assms(1), of e evs] step_closed_socket [OF assms(2), of e ev]
    run_tests_flag [OF assms(1,3), of e]
  by (simp add: webSocket_onmessage_def webSocket_onclose_def idle_def)

theorem cancelled_session_ignores_frames_witness:
  "readableStreamCancel (st (session_run example_env io_ok fallbackUUID OPEN []
       [WsMessage get_frame io_ok, WsError]))
   \<and> wsReadyState (st (session_run example_env io_ok fallbackUUID OPEN []
       [WsMessage get_frame io_ok, WsError, WsClosed])) \<noteq> OPEN
   \<and> list_all tests_flag [WsMessage [9] io_ok, WsClosed, WsMessage [8] io_write_fails]
   \<and> webSocket_onmessage example_env io_ok
       (st (session_run example_env io_ok fallbackUUID OPEN []
              [WsMessage get_frame io_ok, WsError])) [9]
       = idle (st (session_run example_env io_ok fallbackUUID OPEN []
              [WsMessage get_frame io_ok, WsError]))
   \<and> \<not> threw (run example_env
       (st (session_run example_env io_ok fallbackUUID OPEN []
              [WsMessage get_frame io_ok, WsError]))
       [WsMessage [9] io_ok, WsClosed, WsMessage [8] io_write_fails])
   \<and> filter socket_call (acts (run example_env
       (st (session_run example_env io_ok fallbackUUID OPEN []
              [WsMessage get_frame io_ok, WsError]))
       [WsMessage [9] io_ok, WsClosed, WsMessage [8] io_write_fails])) = []
   \<and> tcp_writes (acts (run example_env
       (st (session_run example_env io_ok fallbackUUID OPEN []
              [WsMessage get_frame io_ok, WsError]))
       [WsMessage [9] io_ok, WsClosed, RemoteChunk [5], WsMessage [8] io_write_fails])) = []
   \<and> WsClose \<notin> set (acts (step example_env
       (st (session_run example_env io_ok fallbackUUID OPEN []
              [WsMessage get_frame io_ok, WsError, WsClosed])) RemoteEOF))"
proof -
  have h1: "readableStreamCancel (st (session_run example_env io_ok fallbackUUID OPEN []
       [WsMessage get_frame io_ok, WsError]))"
    by code_simp
  have h2: "wsReadyState (st (session_run example_env io_ok fallbackUUID OPEN []
       [WsMessage get_frame io_ok, WsError, WsClosed])) \<noteq> OPEN"
    by code_simp
  have h3: "list_all tests_flag [WsMessage [9] io_ok, WsClosed, WsMessage [8] io_write_fails]"
    by simp
  show ?thesis
    using cancelled_session_ignores_frames [OF h1 h2 h3, of example_env io_ok "[9]"
        "[WsMessage [9] io_ok, WsClosed, RemoteChunk [5], WsMessage [8] io_write_fails]" RemoteEOF]
      h1 h2 h3
    by blast
qed

text \<open>
  The claim as stated fails. In the session below the header frame is accepted, the dial
  succeeds and an \<^verbatim>\<open>error\<close> event sets the flag and closes the TCP connection. A second
  \<^verbatim>\<open>error\<close> event is then acted on without a look at the flag: it logs and calls
  \<^verbatim>\<open>remoteConnection.close()\<close> again. Likewise, once the socket's \<^verbatim>\<open>close\<close> event has
  followed, a chunk that the TCP pipe still delivers is acted on without a look at the
  flag: the \<^verbatim>\<open>write\<close> callback errors its controller and calls
  \<^verbatim>\<open>remoteConnection.close()\<close> on the connection that is closed already.
\<close>

theorem cancelled_session_still_acts:
  "readableStreamCancel (st (session_run example_env io_ok fallbackUUID OPEN []
       [WsMessage get_frame io_ok, WsError]))
   \<and> acts (session_run example_env io_ok fallbackUUID OPEN []
       [WsMessage get_frame io_ok, WsError])
       = [ConsoleLog ''[example.com:80--0.5] connecting to example.com:80'',
          Connect ''example.com'' 80, TcpWrite [71, 69, 84],
          ConsoleLog ''[example.com:80--0.5] socket has error'', TcpClose]
   \<and> acts (step example_env
       (st (session_run example_env io_ok fallbackUUID OPEN []
              [WsMessage get_frame io_ok, WsError])) WsError)
       = [ConsoleLog ''[example.com:80--0.5] socket has error'', TcpClose]
   \<and> readableStreamCancel (st (session_run example_env io_ok fallbackUUID OPEN []
       [WsMessage get_frame io_ok, WsError, WsClosed]))
   \<and> acts (step example_env
       (st (session_run example_env io_ok fallbackUUID OPEN []
              [WsMessage get_frame io_ok, WsError, WsClosed])) (RemoteChunk [5]))
       = [ControllerError ''can't accept data from remote when client webSocket is close'',
          TcpClose]"
  by code_simp

subsection \<open>The identifier of the session started from \<^verbatim>\<open>socket.onopen\<close>\<close>

lemma uuid_shaped_length: "uuid_shaped t \<Longrightarrow> length t = 36"
  by (simp add: uuid_shaped_def)

lemma find_uuid_first: "first_uuid_at url k u \<Longrightarrow> find_uuid url = Some u"
proof (induction url arbitrary: k)
  case Nil
  then show ?case by (auto simp: first_uuid_at_def dest: uuid_shaped_length)
next
  case (Cons c cs)
  have earlier: "\<not> uuid_shaped (take 36 (drop j (c # cs)))" if "j < k" for j
    using Cons.prems that by (auto simp: first_uuid_at_def list_all_iff)
  have here: "u = take 36 (drop k (c # cs))" "uuid_shaped (take 36 (drop k (c # cs)))"
    using Cons.prems by (auto simp: first_uuid_at_def)
  show ?case
  proof (cases k)
    case 0
    with here show ?thesis by auto
  next
    case (Suc k')
    then have "0 < k" by simp
    from earlier [OF this] have not_here: "\<not> uuid_shaped (take 36 (c # cs))" by simp
    have "first_uuid_at cs k' u"
      unfolding first_uuid_at_def list_all_iff
    proof (intro conjI ballI)
      show "u = take 36 (drop k' cs)" and "uuid_shaped u"
        using here Suc by auto
    next
      fix j assume "j \<in> set [0..<k']"
      then have "Suc j < k" using Suc by auto
      from earlier [OF this] show "\<not> uuid_shaped (take 36 (drop j cs))" by simp
    qed
    from Cons.IH [OF this] not_here show ?thesis by simp
  qed
qed

lemma processWebSocket_userID: "userID (st (processWebSocket e i uid ws early)) = uid"
  by (simp add: processWebSocket_def closing initial_session_def split: option.splits)

lemma processWebSocket_awaits_header:
  "\<not> readableStreamCancel (st (processWebSocket e i uid ws early))"
  "remoteConnection (st (processWebSocket e i uid ws early)) = None"
  by (simp_all add: processWebSocket_def closing initial_session_def split: option.splits)

lemma onmessage_dials_iff:
  assumes "\<not> readableStreamCancel s" and "remoteConnection s = None"
  shows "(connects (acts (webSocket_onmessage e i s buf)) \<noteq> []) =
         (\<not> header_rejected (processVlessHeader e buf (userID s))
          \<and> \<not> truthy (isUDP (processVlessHeader e buf (userID s))))"
  using assms
  by (simp add: webSocket_onmessage_def dial_def failed_to_connect_def closing
      connects_simps connects_append)

lemma socket_onopen_session_userID:
  "userID (st (socket_onopen_session e i configured url proto)) = getVlessUUID url"
  by (simp add: socket_onopen_session_def upgradeWebSocket_handler_def Let_def
      processWebSocket_userID)

text \<open>
  Claim C4. The handler passes \<^verbatim>\<open>getVlessUUID(c.req.url)\<close> as \<^verbatim>\<open>userID\<close> to the session
  it starts from \<^verbatim>\<open>socket.onopen\<close>: the first UUID-shaped substring of the URL, or the
  hardcoded default when there is none, whatever identifier is configured (the configured
  one goes to the \<^verbatim>\<open>onOpen\<close> call only). That session decodes its first frame against
  this identifier, which decides whether it dials. So two requests whose URLs have
  different first UUID-shaped substrings are authenticated against different identifiers.
\<close>

theorem url_decides_session_identifier:
  assumes "first_uuid_at url1 k1 u1" and "first_uuid_at url2 k2 u2" and "u1 \<noteq> u2"
  shows "arg_userID (socket_onopen (upgradeWebSocket_handler configured url1 proto1)) = u1
       \<and> arg_userID (hono_onOpen (upgradeWebSocket_handler configured url1 proto1)) = configured
       \<and> userID (st (socket_onopen_session e i configured url1 proto1)) = u1
       \<and> userID (st (socket_onopen_session e i configured url2 proto2)) = u2
       \<and> userID (st (socket_onopen_session e i configured url1 proto1))
           \<noteq> userID (st (socket_onopen_session e i configured url2 proto2))
       \<and> socket_onopen_session e i configured url1 proto1
           = socket_onopen_session e i configured' url1 proto1
       \<and> userID (st (socket_onopen_session e i configured url proto))
           = (case find_uuid url of Some m \<Rightarrow> m
              | None \<Rightarrow> ''6c131438-da48-459f-a236-9a45374e9a45'')
       \<and> (connects (acts (webSocket_onmessage e i'
              (st (socket_onopen_session e i configured url1 proto1)) buf)) \<noteq> [])
           = (\<not> header_rejected (processVlessHeader e buf u1)
              \<and> \<not> truthy (isUDP (processVlessHeader e buf u1)))"
proof -
  have g1: "getVlessUUID url1 = u1" and g2: "getVlessUUID url2 = u2"
    using find_uuid_first [OF assms(1)] find_uuid_first [OF assms(2)]
    by (simp_all add: getVlessUUID_def)
  have a: "arg_userID (socket_onopen (upgradeWebSocket_handler configured url1 proto1)) = u1"
    "arg_userID (hono_onOpen (upgradeWebSocket_handler configured url1 proto1)) = configured"
    by (simp_all add: upgradeWebSocket_handler_def Let_def g1)
  have same: "socket_onopen_session e i configured url1 proto1
           = socket_onopen_session e i configured' url1 proto1"
    by (simp add: socket_onopen_session_def upgradeWebSocket_handler_def Let_def)
  have dflt: "userID (st (socket_onopen_session e i configured url proto))
           = (case find_uuid url of Some m \<Rightarrow> m
              | None \<Rightarrow> ''6c131438-da48-459f-a236-9a45374e9a45'')"
    by (simp add: socket_onopen_session_userID getVlessUUID_def)
  have live: "\<not> readableStreamCancel (st (socket_onopen_session e i configured url1 proto1))"
    "remoteConnection (st (socket_onopen_session e i configured url1 proto1)) = None"
    by (simp_all add: socket_onopen_session_def Let_def processWebSocket_awaits_header)
  have dec: "(connects (acts (webSocket_onmessage e i'
              (st (socket_onopen_session e i configured url1 proto1)) buf)) \<noteq> [])
           = (\<not> header_rejected (processVlessHeader e buf u1)
              \<and> \<not> truthy (isUDP (processVlessHeader e buf u1)))"
    using onmessage_dials_iff [OF live, of e i' buf]
    by (simp add: socket_onopen_session_userID g1)
  show ?thesis
    using a same dflt dec assms(3)
    by (simp add: socket_onopen_session_userID g1 g2)
qed

theorem url_decides_session_identifier_witness:
  "first_uuid_at ''http://h/11111111-2222-3333-4444-555555555555'' 9
       ''11111111-2222-3333-4444-555555555555''
   \<and> first_uuid_at ''/?a=AAAAAAAA-bbbb-cccc-dddd-eeeeeeeeeeee&b=11111111-2222-3333-4444-555555555555''
       4 ''AAAAAAAA-bbbb-cccc-dddd-eeeeeeeeeeee''
   \<and> ''11111111-2222-3333-4444-555555555555'' \<noteq> ''AAAAAAAA-bbbb-cccc-dddd-eeeeeeeeeeee''
   \<and> userID (st (socket_onopen_session example_env io_ok fallbackUUID
        ''http://h/11111111-2222-3333-4444-555555555555'' None))
       = ''11111111-2222-3333-4444-555555555555''
   \<and> userID (st (socket_onopen_session example_env io_ok fallbackUUID
        ''/?a=AAAAAAAA-bbbb-cccc-dddd-eeeeeeeeeeee&b=11111111-2222-3333-4444-555555555555'' None))
       = ''AAAAAAAA-bbbb-cccc-dddd-eeeeeeeeeeee''
   \<and> arg_userID (hono_onOpen (upgradeWebSocket_handler fallbackUUID
        ''http://h/11111111-2222-3333-4444-555555555555'' None)) = fallbackUUID"
proof -
  have h1: "first_uuid_at ''http://h/11111111-2222-3333-4444-555555555555'' 9
       ''11111111-2222-3333-4444-555555555555''"
    by code_simp
  have h2: "first_uuid_at
       ''/?a=AAAAAAAA-bbbb-cccc-dddd-eeeeeeeeeeee&b=11111111-2222-3333-4444-555555555555''
       4 ''AAAAAAAA-bbbb-cccc-dddd-eeeeeeeeeeee''"
    by code_simp
  have h3: "''11111111-2222-3333-4444-555555555555'' \<noteq> ''AAAAAAAA-bbbb-cccc-dddd-eeeeeeeeeeee''"
    by simp
  show ?thesis
    using url_decides_session_identifier [OF h1 h2 h3, of fallbackUUID None example_env io_ok None]
      h1 h2 h3
    by blast
qed

subsection \<open>The response header\<close>

lemma ws_sends_simps:
  "ws_sends [] = []" "ws_sends (WsSend b # xs) = b # ws_sends xs"
  "ws_sends (log s t # xs) = ws_sends xs"
  "ws_sends (Connect a n # xs) = ws_sends xs"
  "ws_sends (TcpWrite b # xs) = ws_sends xs"
  "ws_sends (WsClose # xs) = ws_sends xs"
  "ws_sends (TcpClose # xs) = ws_sends xs"
  "ws_sends (Delay d # xs) = ws_sends xs"
  "ws_sends (ControllerError t # xs) = ws_sends xs"
  "ws_sends (ConsoleError t # xs) = ws_sends xs"
  "ws_sends (close_remote s) = []"
  "ws_sends (snd (closeWebSocket s)) = []"
  by (simp_all add: observation_defs closeWebSocket_def split: option.splits)

text \<open>
  In the callback variant the only frames ever sent are the chunks read from TCP: no
  callback sends the response header. The stream variant sends it when the promise is
  resolved, before any chunk.
\<close>

lemma callback_variant_sends_chunks_only:
  "ws_sends (acts (step e s ev)) =
     (case ev of RemoteChunk c \<Rightarrow> if remotePiped s \<and> wsReadyState s = OPEN then [c] else []
      | _ \<Rightarrow> [])"
  by (cases ev;
      simp add: callback_defs closing ws_sends_simps ws_sends_append split: option.splits)

lemma stream_variant_sends_header:
  assumes "remoteConnection p = None" and "\<not> readyResolved p" and "wsReadyState p = OPEN"
    and "\<not> header_rejected (processVlessHeader e buf (userID p))"
    and "\<not> truthy (isUDP (processVlessHeader e buf (userID p)))"
    and "vlessVersion (processVlessHeader e buf (userID p)) = Some v"
    and "connect_ok i" and "write_ok i"
  shows "ws_sends (acts (pipe_step e p (WsChunk buf i))) = [[first_byte v, 0]]"
  using assms
  by (simp add: ws_chunk_step_def ws_write_def pipe_dial_def after_def remote_ready_def closing
      set_log_context_def ws_sends_simps ws_sends_append)

text \<open>
  Claim C2 fails in \<^verbatim>\<open>src/apps/deno-vless/src/main.ts\<close>. The client of the scenario sends
  the header for \<^verbatim>\<open>example.com:80\<close> with the payload \<^verbatim>\<open>GET\<close>, the dial succeeds and the
  TCP connection answers with the bytes 1, 2, 3. The callback variant builds
  \<^verbatim>\<open>vlessResponseHeader\<close> and never sends it: the first and only frame the client gets is
  the chunk. On the same input the stream variant sends the header \<open>[0, 0]\<close> first.
\<close>

theorem callback_variant_omits_response_header:
  "ws_sends (acts (session_run example_env io_ok fallbackUUID OPEN []
       [WsMessage get_frame io_ok, RemoteChunk [1, 2, 3]])) = [[1, 2, 3]]
   \<and> ws_sends (acts (pipe_run example_env (pipe_initial_session fallbackUUID OPEN)
       [WsChunk get_frame io_ok, TcpChunk [1, 2, 3]])) = [[0, 0], [1, 2, 3]]"
  by code_simp

subsection \<open>The early data\<close>

text \<open>
  When the early-data header decodes, \<^verbatim>\<open>processWebSocket\<close> of the callback variant does
  nothing with the payload: \<^verbatim>\<open>remoteConnection\<close> is still \<^verbatim>\<open>null\<close> when the payload is
  decoded, the branch that would keep it is empty, and the session goes on as if there
  were no payload.
\<close>

lemma early_data_dropped:
  "\<not> error (base64ToArrayBuffer e early) \<Longrightarrow>
   processWebSocket e i uid ws early = idle (initial_session uid ws)"
  by (simp add: processWebSocket_def idle_def initial_session_def Let_def split: option.splits)

text \<open>
  Claim C5 fails in \<^verbatim>\<open>src/apps/deno-vless/src/main.ts\<close>. The early-data header \<^verbatim>\<open>AQID\<close>
  decodes to the bytes 1, 2, 3; the first frame is the header for \<^verbatim>\<open>example.com:80\<close> with
  the payload \<^verbatim>\<open>GET\<close>, and the dial succeeds. The only bytes written to the TCP connection
  are the payload of the frame: the early data is never written.
\<close>

theorem callback_variant_drops_early_data:
  "error (base64ToArrayBuffer example_env ''AQID'') = False
   \<and> earlyData (base64ToArrayBuffer example_env ''AQID'') = Some [1, 2, 3]
   \<and> tcp_writes (acts (session_run example_env io_ok fallbackUUID OPEN ''AQID''
       [WsMessage get_frame io_ok])) = [[71, 69, 84]]
   \<and> session_run example_env io_ok fallbackUUID OPEN ''AQID'' [WsMessage get_frame io_ok]
       = session_run example_env io_ok fallbackUUID OPEN [] [WsMessage get_frame io_ok]"
  by code_simp

subsection \<open>An exception in a socket callback\<close>

text \<open>
  In the callback variant a relayed frame whose TCP write fails throws out of
  \<^verbatim>\<open>onmessage\<close>: the write on line 124 stands in no \<^verbatim>\<open>try\<close>, and the outer \<^verbatim>\<open>try\<close> of
  \<^verbatim>\<open>processWebSocket\<close> has been left long before the callback runs.
\<close>

lemma relay_write_failure_escapes:
  "\<not> readableStreamCancel s \<Longrightarrow> remoteConnection s \<noteq> None \<Longrightarrow> \<not> write_ok i \<Longrightarrow>
   step e s (WsMessage b i) = \<lparr>st = s, acts = [TcpWrite b], threw = True\<rparr>"
  by (simp add: webSocket_onmessage_def)

text \<open>
  Claim C10 fails in \<^verbatim>\<open>src/apps/deno-vless/src/main.ts\<close>. After the header frame and a
  successful dial, a second frame arrives and its write to the TCP connection fails. The
  exception leaves the callback: nothing is logged, neither socket is closed, and the run
  ends with \<open>threw\<close> set. On the same input the stream variant catches the failure in the
  \<^verbatim>\<open>.catch\<close> of its pipe, logs it with the address and port, and closes both sockets.
\<close>

theorem callback_variant_lets_write_failure_escape:
  "threw (session_run example_env io_ok fallbackUUID OPEN []
       [WsMessage get_frame io_ok, WsMessage [9] io_write_fails])
   \<and> acts (session_run example_env io_ok fallbackUUID OPEN []
       [WsMessage get_frame io_ok, WsMessage [9] io_write_fails])
       = [ConsoleLog ''[example.com:80--0.5] connecting to example.com:80'',
          Connect ''example.com'' 80, TcpWrite [71, 69, 84], TcpWrite [9]]
   \<and> wsReadyState (st (session_run example_env io_ok fallbackUUID OPEN []
       [WsMessage get_frame io_ok, WsMessage [9] io_write_fails])) = OPEN
   \<and> threw (pipe_run example_env (pipe_initial_session fallbackUUID OPEN)
       [WsChunk get_frame io_ok, WsChunk [9] io_write_fails]) = False
   \<and> acts (pipe_run example_env (pipe_initial_session fallbackUUID OPEN)
       [WsChunk get_frame io_ok, WsChunk [9] io_write_fails])
       = [ConsoleLog ''[example.com:80--0.5] connecting to example.com:80'',
          Connect ''example.com'' 80, TcpWrite [71, 69, 84], WsSend [0, 0], TcpWrite [9],
          ConsoleLog ''[example.com:80--0.5] readableWebSocketStream pipeto has exception'',
          WsClose, TcpClose]"
  by code_simp

end
